theory Spec2Isabelle
  imports Main "HOL-Library.Word"
begin

unbundle bit_operations_syntax

section \<open>Data model of sch\_fq.c\<close>

text \<open>
  Machine integers are words of the width the C code uses: \<open>u64\<close> for nanosecond times,
  \<open>unsigned long\<close> (64 bit) for jiffies, rates and pointer values, \<open>u32\<close> for counters
  and configuration values. Signed readings (\<open>int credit\<close>, the \<open>s64\<close> casts of the
  horizon test, \<open>time_after\<close>) are taken with \<open>sint\<close>.
\<close>

type_synonym u8 = "8 word"
type_synonym u16 = "16 word"
type_synonym u32 = "32 word"
type_synonym u64 = "64 word"
type_synonym ulong = "64 word"

datatype tcp_state = TCP_ESTABLISHED | TCP_CLOSE | TCP_LISTEN | TCP_NEW_SYN_RECV | TCP_OTHER

text \<open>The fields of \<open>struct sock\<close> that the scheduler reads; \<open>sk_addr\<close> is the pointer value.\<close>

record sock =
  sk_addr :: ulong
  sk_hash :: u32
  sk_state :: tcp_state
  sk_num :: u16
  sk_dport :: u16
  sk_pacing_rate :: ulong
  sk_pacing_status :: u32

text \<open>
  The fields of \<open>struct sk_buff\<close> the scheduler uses. \<open>time_to_send\<close> is the control-block
  annotation \<open>fq_skb_cb(skb)->time_to_send\<close>, \<open>pkt_len\<close> is \<open>qdisc_pkt_len\<close>,
  \<open>skb_hash\<close> is \<open>skb_get_hash\<close>, \<open>ce\<close> records a call of \<open>INET_ECN_set_ce\<close>.
\<close>

record sk_buff =
  tstamp :: u64
  priority :: u32
  sk :: "sock option"
  skb_hash :: u32
  pkt_len :: u32
  time_to_send :: u64
  ce :: bool

text \<open>
  \<open>struct fq_flow\<close>. The FIFO \<open>head \<dots> tail\<close> is the list \<open>head\<close> of the packets
  chained by \<open>skb->next\<close> (so \<open>flow->tail\<close> is its last element while the chain is not
  empty); the red-black tree \<open>t_root\<close> is the list of its packets in tree order (left to
  right). The union of \<open>tail\<close> and \<open>age\<close> is \<open>tail_age\<close>: either a packet pointer
  (low bit 0) or a jiffies value. \<open>next_throttled\<close> is \<open>f->next == &throttled\<close>; the
  other values of \<open>next\<close> are the order of the round-robin lists.
\<close>

datatype tail_age = Tail_ptr | Age ulong

record fq_flow =
  t_root :: "sk_buff list"
  head :: "sk_buff list"
  tail_age :: tail_age
  flow_sk :: ulong
  socket_hash :: u32
  qlen :: u32
  credit :: u32
  next_throttled :: bool
  time_next_packet :: u64

text \<open>A flow pointer is \<open>&q->internal\<close> or a flow of the table, named by its key \<open>f->sk\<close>.\<close>

datatype flow_ref = Internal | Flow ulong

datatype list_id = NEW_FLOWS | OLD_FLOWS | CO_FLOWS

text \<open>
  The scheduler state: the fields of \<open>struct Qdisc\<close> that are used (\<open>sch_*\<close>, \<open>bstats_*\<close>),
  the private data \<open>struct fq_sched_data\<close>, and the file-scope variables \<open>pFlowid\<close>,
  \<open>ucounter\<close>, \<open>flipflag\<close>, \<open>sport\<close>, \<open>dport\<close>. The three round-robin lists and the
  tree \<open>delayed\<close> (in tree order) hold flow pointers. The hash table \<open>fq_root\<close> is the list
  of the keys of the flows linked in it (\<open>fq_root_allocated\<close> is \<open>q->fq_root != NULL\<close>),
  and \<open>flow_at\<close> is the memory of the flow objects, indexed by key. \<open>watchdog\<close> is the last request to \<open>qdisc_watchdog_schedule_range_ns\<close>.
\<close>

record fq_sched_data =
  sch_qlen :: u32
  sch_limit :: u32
  sch_backlog :: u32
  sch_drops :: u32
  bstats_bytes :: u64
  bstats_packets :: u64
  new_flows :: "flow_ref list"
  old_flows :: "flow_ref list"
  co_flows :: "flow_ref list"
  delayed :: "flow_ref list"
  time_next_delayed_flow :: u64
  ktime_cache :: u64
  unthrottle_latency_ns :: ulong
  internal :: fq_flow
  fq_root_allocated :: bool
  fq_root :: "ulong list"
  flow_at :: "ulong \<Rightarrow> fq_flow"
  quantum :: u32
  initial_quantum :: u32
  flow_refill_delay :: u32
  flow_plimit :: u32
  flow_max_rate :: ulong
  ce_threshold :: u64
  horizon :: u64
  orphan_mask :: u32
  low_rate_threshold :: u32
  rate_enable :: u8
  fq_trees_log :: u8
  horizon_drop :: u8
  timer_slack :: u32
  flows :: u32
  inactive_flows :: u32
  throttled_flows :: u32
  stat_gc_flows :: u64
  stat_internal_packets :: u64
  stat_throttled :: u64
  stat_ce_mark :: u64
  stat_horizon_drops :: u64
  stat_horizon_caps :: u64
  stat_flows_plimit :: u64
  stat_pkts_too_long :: u64
  stat_allocation_errors :: u64
  f1_sourceport :: u32
  f2_sourceport :: u32
  f1_destport :: u32
  f2_destport :: u32
  watchdog :: "(u64 \<times> u32) option"
  pFlowid0 :: u32
  pFlowid1 :: u32
  ucounter :: u32
  flipflag :: u32
  sport :: u32
  dport :: u32

text \<open>
  What the kernel supplies during one call: the value of \<open>ktime_get_ns()\<close>, \<open>jiffies\<close>,
  the constant \<open>HZ\<close>, whether \<open>kmem_cache_zalloc\<close> and \<open>kvmalloc_node\<close> succeed, and
  the keys of the nodes that a descent of the bucket's red-black tree meets (the shape of the
  tree is decided by the kernel's rbtree library), the kernel's conversions to jiffies and
  \<open>psched_mtu\<close> of the device.
\<close>

record env =
  ktime_ns :: u64
  jiffies :: ulong
  HZ :: ulong
  flow_alloc_ok :: bool
  array_alloc_ok :: bool
  gc_path :: "ulong list"
  usecs_to_jiffies :: "u32 \<Rightarrow> ulong"
  msecs_to_jiffies :: "u32 \<Rightarrow> ulong"
  psched_mtu :: u32

definition get_flow :: "fq_sched_data \<Rightarrow> flow_ref \<Rightarrow> fq_flow" where
  "get_flow q r = (case r of Internal \<Rightarrow> internal q | Flow k \<Rightarrow> flow_at q k)"

definition put_flow :: "fq_sched_data \<Rightarrow> flow_ref \<Rightarrow> fq_flow \<Rightarrow> fq_sched_data" where
  "put_flow q r f =
     (case r of Internal \<Rightarrow> q\<lparr>internal := f\<rparr> | Flow k \<Rightarrow> q\<lparr>flow_at := (flow_at q)(k := f)\<rparr>)"

definition get_list :: "fq_sched_data \<Rightarrow> list_id \<Rightarrow> flow_ref list" where
  "get_list q h = (case h of NEW_FLOWS \<Rightarrow> new_flows q | OLD_FLOWS \<Rightarrow> old_flows q
                   | CO_FLOWS \<Rightarrow> co_flows q)"

definition set_list :: "fq_sched_data \<Rightarrow> list_id \<Rightarrow> flow_ref list \<Rightarrow> fq_sched_data" where
  "set_list q h xs = (case h of NEW_FLOWS \<Rightarrow> q\<lparr>new_flows := xs\<rparr>
                      | OLD_FLOWS \<Rightarrow> q\<lparr>old_flows := xs\<rparr> | CO_FLOWS \<Rightarrow> q\<lparr>co_flows := xs\<rparr>)"

definition time_after :: "ulong \<Rightarrow> ulong \<Rightarrow> bool" where
  "time_after a b = (sint (b - a) < 0)"

section \<open>Per-flow packet queue\<close>

definition fq_flow_set_detached :: "env \<Rightarrow> fq_flow \<Rightarrow> fq_flow" where
  "fq_flow_set_detached e f = f\<lparr>tail_age := Age (jiffies e OR 1)\<rparr>"

definition fq_flow_is_detached :: "fq_flow \<Rightarrow> bool" where
  "fq_flow_is_detached f = (case tail_age f of Tail_ptr \<Rightarrow> False | Age a \<Rightarrow> a AND 1 \<noteq> 0)"

definition fq_flow_is_throttled :: "fq_flow \<Rightarrow> bool" where
  "fq_flow_is_throttled f = next_throttled f"

definition fq_peek :: "fq_flow \<Rightarrow> sk_buff option" where
  "fq_peek flow =
     (case t_root flow of
        [] \<Rightarrow> (case head flow of [] \<Rightarrow> None | h # _ \<Rightarrow> Some h)
      | skb # _ \<Rightarrow>
          (case head flow of
             [] \<Rightarrow> Some skb
           | h # _ \<Rightarrow> if time_to_send skb < time_to_send h then Some skb else Some h))"

definition fq_erase_head :: "fq_flow \<Rightarrow> sk_buff \<Rightarrow> fq_flow" where
  "fq_erase_head flow skb =
     (if head flow \<noteq> [] \<and> skb = hd (head flow) then flow\<lparr>head := tl (head flow)\<rparr>
      else flow\<lparr>t_root := remove1 skb (t_root flow)\<rparr>)"

text \<open>
  The descent of \<open>flow_queue_add\<close> goes right when the new packet's \<open>time_to_send\<close> is
  \<open>>=\<close> the node's and left otherwise, so in tree order the packet lands before the first
  packet that is strictly later.
\<close>

fun rb_insert_skb :: "sk_buff \<Rightarrow> sk_buff list \<Rightarrow> sk_buff list" where
  "rb_insert_skb skb [] = [skb]"
| "rb_insert_skb skb (aux # rest) =
     (if time_to_send skb \<ge> time_to_send aux then aux # rb_insert_skb skb rest
      else skb # aux # rest)"

definition flow_queue_add :: "fq_flow \<Rightarrow> sk_buff \<Rightarrow> fq_flow" where
  "flow_queue_add flow skb =
     (if head flow = [] \<or> time_to_send skb \<ge> time_to_send (last (head flow))
      then flow\<lparr>head := head flow @ [skb], tail_age := Tail_ptr\<rparr>
      else flow\<lparr>t_root := rb_insert_skb skb (t_root flow)\<rparr>)"

section \<open>Round-robin lists and the tree of throttled flows\<close>

text \<open>
  Modelled from the spec: \<open>fq_flow_add_tail\<close> is defined in \<open>fqtest.h\<close>, which is not
  among the sources. Section 4.2: \<open>push_tail(flow)\<close> appends the flow to the list, and
  \<open>list_next\<close> is set to null on push.
\<close>

definition fq_flow_add_tail :: "fq_sched_data \<Rightarrow> list_id \<Rightarrow> flow_ref \<Rightarrow> fq_sched_data" where
  "fq_flow_add_tail q h r =
     (let q1 = set_list q h (get_list q h @ [r])
      in put_flow q1 r ((get_flow q1 r)\<lparr>next_throttled := False\<rparr>))"

definition fq_flow_unset_throttled :: "fq_sched_data \<Rightarrow> flow_ref \<Rightarrow> fq_sched_data" where
  "fq_flow_unset_throttled q r =
     fq_flow_add_tail
       (q\<lparr>delayed := remove1 r (delayed q), throttled_flows := throttled_flows q - 1\<rparr>)
       OLD_FLOWS r"

text \<open>
  The descent of \<open>fq_flow_set_throttled\<close>: right when \<open>f->time_next_packet\<close> is \<open>>=\<close>
  the node's, left otherwise.
\<close>

fun rb_insert_flow :: "(flow_ref \<Rightarrow> u64) \<Rightarrow> flow_ref \<Rightarrow> flow_ref list \<Rightarrow> flow_ref list" where
  "rb_insert_flow key r [] = [r]"
| "rb_insert_flow key r (aux # rest) =
     (if key r \<ge> key aux then aux # rb_insert_flow key r rest else r # aux # rest)"

definition fq_flow_set_throttled :: "fq_sched_data \<Rightarrow> flow_ref \<Rightarrow> fq_sched_data" where
  "fq_flow_set_throttled q r =
     (let f = get_flow q r;
          q1 = q\<lparr>delayed := rb_insert_flow (\<lambda>x. time_next_packet (get_flow q x)) r (delayed q),
                 throttled_flows := throttled_flows q + 1,
                 stat_throttled := stat_throttled q + 1\<rparr>;
          q2 = put_flow q1 r (f\<lparr>next_throttled := True\<rparr>)
      in if time_next_delayed_flow q2 > time_next_packet f
         then q2\<lparr>time_next_delayed_flow := time_next_packet f\<rparr> else q2)"

section \<open>Flow table: garbage collection and classification\<close>

definition flow_age :: "fq_flow \<Rightarrow> ulong" where
  "flow_age f = (case tail_age f of Age a \<Rightarrow> a | Tail_ptr \<Rightarrow> 0)"

definition fq_gc_candidate :: "env \<Rightarrow> fq_flow \<Rightarrow> bool" where
  "fq_gc_candidate e f =
     (fq_flow_is_detached f \<and> time_after (jiffies e) (flow_age f + 3 * HZ e))"

fun gc_collect :: "env \<Rightarrow> fq_sched_data \<Rightarrow> ulong \<Rightarrow> ulong list \<Rightarrow> ulong list \<Rightarrow> ulong list" where
  "gc_collect e q k [] tofree = tofree"
| "gc_collect e q k (n # path) tofree =
     (if n = k then tofree
      else if fq_gc_candidate e (flow_at q n)
      then (if length (tofree @ [n]) = 8 then tofree @ [n]
            else gc_collect e q k path (tofree @ [n]))
      else gc_collect e q k path tofree)"

definition fq_gc :: "env \<Rightarrow> fq_sched_data \<Rightarrow> ulong \<Rightarrow> fq_sched_data" where
  "fq_gc e q k =
     (let tofree = gc_collect e q k (remdups (filter (\<lambda>n. n \<in> set (fq_root q)) (gc_path e))) [];
          fcnt = length tofree
      in if fcnt = 0 then q
         else q\<lparr>fq_root := filter (\<lambda>n. n \<notin> set tofree) (fq_root q),
                flows := flows q - of_nat fcnt,
                inactive_flows := inactive_flows q - of_nat fcnt,
                stat_gc_flows := stat_gc_flows q + of_nat fcnt\<rparr>)"

definition flow_zero :: fq_flow where
  "flow_zero = \<lparr>t_root = [], head = [], tail_age = Tail_ptr, flow_sk = 0, socket_hash = 0,
     qlen = 0, credit = 0, next_throttled = False, time_next_packet = 0\<rparr>"

definition sk_listener :: "sock \<Rightarrow> bool" where
  "sk_listener s = (sk_state s = TCP_LISTEN \<or> sk_state s = TCP_NEW_SYN_RECV)"

definition orphan_key :: "sk_buff \<Rightarrow> fq_sched_data \<Rightarrow> ulong" where
  "orphan_key skb q = push_bit 1 (ucast (skb_hash skb AND orphan_mask q)) OR 1"

definition set_pacing_fq :: "fq_sched_data \<Rightarrow> sk_buff \<Rightarrow> sk_buff" where
  "set_pacing_fq q skb =
     (if rate_enable q \<noteq> 0
      then skb\<lparr>sk := map_option (\<lambda>s. s\<lparr>sk_pacing_status := 2\<rparr>) (sk skb)\<rparr> else skb)"

text \<open>
  \<open>classify_key\<close> is the first part of \<open>fq_classify\<close>: the key \<open>sk\<close> under which the
  flow is looked up, and the packet after \<open>skb_orphan\<close>. \<open>sk_is_key\<close> is the test
  \<open>skb->sk == sk\<close> made after it.
\<close>

definition classify_key :: "sk_buff \<Rightarrow> fq_sched_data \<Rightarrow> ulong \<times> sk_buff" where
  "classify_key skb q =
     (case sk skb of
        None \<Rightarrow> (orphan_key skb q, skb\<lparr>sk := None\<rparr>)
      | Some s \<Rightarrow>
          if sk_listener s then (orphan_key skb q, skb\<lparr>sk := None\<rparr>)
          else if sk_state s = TCP_CLOSE then (orphan_key skb q, skb)
          else (sk_addr s, skb))"

definition sk_is_key :: "sk_buff \<Rightarrow> ulong \<Rightarrow> bool" where
  "sk_is_key skb k = (case sk skb of None \<Rightarrow> False | Some s \<Rightarrow> sk_addr s = k)"

definition skb_sk_hash :: "sk_buff \<Rightarrow> u32" where
  "skb_sk_hash skb = (case sk skb of None \<Rightarrow> 0 | Some s \<Rightarrow> sk_hash s)"

definition fq_classify ::
  "env \<Rightarrow> sk_buff \<Rightarrow> fq_sched_data \<Rightarrow> flow_ref \<times> sk_buff \<times> fq_sched_data" where
  "fq_classify e skb q =
     (if priority skb AND 15 = 7 then (Internal, skb, q)
      else
        let (k, skb1) = classify_key skb q;
            q1 = (if flows q \<ge> push_bit (unat (fq_trees_log q)) 2
                     \<and> inactive_flows q > flows q div 2
                  then fq_gc e q k else q)
        in if k \<in> set (fq_root q1) then
             (let f = flow_at q1 k
              in if sk_is_key skb1 k \<and> socket_hash f \<noteq> skb_sk_hash skb1 then
                   (let q2 = put_flow q1 (Flow k)
                               (f\<lparr>credit := initial_quantum q1, socket_hash := skb_sk_hash skb1\<rparr>);
                        q3 = (if fq_flow_is_throttled f
                              then fq_flow_unset_throttled q2 (Flow k) else q2)
                    in (Flow k, set_pacing_fq q1 skb1,
                        put_flow q3 (Flow k) ((get_flow q3 (Flow k))\<lparr>time_next_packet := 0\<rparr>)))
                 else (Flow k, skb1, q1))
           else if \<not> flow_alloc_ok e then
             (Internal, skb1, q1\<lparr>stat_allocation_errors := stat_allocation_errors q1 + 1\<rparr>)
           else
             (let f0 = (fq_flow_set_detached e flow_zero)\<lparr>flow_sk := k\<rparr>;
                  f1 = (if sk_is_key skb1 k then f0\<lparr>socket_hash := skb_sk_hash skb1\<rparr> else f0);
                  skb2 = (if sk_is_key skb1 k then set_pacing_fq q1 skb1 else skb1);
                  f2 = f1\<lparr>credit := initial_quantum q1\<rparr>
              in (Flow k, skb2,
                  (put_flow q1 (Flow k) f2)
                    \<lparr>fq_root := fq_root q1 @ [k],
                     flows := flows q1 + 1,
                     inactive_flows := inactive_flows q1 + 1\<rparr>)))"

section \<open>Enqueue\<close>

datatype xmit_result = NET_XMIT_SUCCESS | NET_XMIT_DROP | NULL_DEREFERENCE

definition qdisc_drop :: "fq_sched_data \<Rightarrow> fq_sched_data" where
  "qdisc_drop q = q\<lparr>sch_drops := sch_drops q + 1\<rparr>"

definition fq_packet_beyond_horizon :: "sk_buff \<Rightarrow> fq_sched_data \<Rightarrow> bool" where
  "fq_packet_beyond_horizon skb q = (sint (tstamp skb) > sint (ktime_cache q + horizon q))"

text \<open>
  Lines 376 to 397 of \<open>fq_enqueue\<close>: the packet with its \<open>time_to_send\<close> set, or
  \<open>None\<close> when the packet is dropped for being beyond the horizon.
\<close>

definition fq_enqueue_tstamp ::
  "env \<Rightarrow> sk_buff \<Rightarrow> fq_sched_data \<Rightarrow> sk_buff option \<times> fq_sched_data" where
  "fq_enqueue_tstamp e skb q =
     (if tstamp skb = 0
      then (Some (skb\<lparr>time_to_send := ktime_ns e\<rparr>), q\<lparr>ktime_cache := ktime_ns e\<rparr>)
      else if fq_packet_beyond_horizon skb q then
        (let q1 = q\<lparr>ktime_cache := ktime_ns e\<rparr>
         in if fq_packet_beyond_horizon skb q1 then
              (if horizon_drop q1 \<noteq> 0
               then (None, q1\<lparr>stat_horizon_drops := stat_horizon_drops q1 + 1\<rparr>)
               else (let skb1 = skb\<lparr>tstamp := ktime_cache q1 + horizon q1\<rparr>
                     in (Some (skb1\<lparr>time_to_send := tstamp skb1\<rparr>),
                         q1\<lparr>stat_horizon_caps := stat_horizon_caps q1 + 1\<rparr>)))
            else (Some (skb\<lparr>time_to_send := tstamp skb\<rparr>), q1))
      else (Some (skb\<lparr>time_to_send := tstamp skb\<rparr>), q))"

text \<open>
  Lines 459 to 511: the flow's \<open>socket_hash\<close> is overwritten with the masked packet hash,
  \<open>pFlowid\<close> is updated by comparing the file-scope \<open>sport\<close> with the literals 46730
  and 46731, and the packet is queued.
\<close>

definition fq_enqueue_finish ::
  "flow_ref \<Rightarrow> sk_buff \<Rightarrow> fq_sched_data \<Rightarrow> xmit_result \<times> fq_sched_data" where
  "fq_enqueue_finish r skb q =
     (let pHash = skb_hash skb AND orphan_mask q;
          q1 = put_flow q r ((get_flow q r)\<lparr>socket_hash := pHash\<rparr>);
          q2 = (if sport q1 = 46730 then q1\<lparr>pFlowid0 := socket_hash (get_flow q1 r)\<rparr> else q1);
          q3 = (if sport q2 = 46731 then q2\<lparr>pFlowid1 := socket_hash (get_flow q2 r)\<rparr> else q2);
          q4 = put_flow q3 r (flow_queue_add (get_flow q3 r) skb);
          q5 = (if r = Internal
                then q4\<lparr>stat_internal_packets := stat_internal_packets q4 + 1\<rparr> else q4)
      in (NET_XMIT_SUCCESS, q5\<lparr>sch_qlen := sch_qlen q5 + 1\<rparr>))"

text \<open>
  Lines 400 to 457, then the rest. In the branch of a detached flow the code reads
  \<open>skb->sk->sk_num\<close>; when \<open>skb->sk\<close> is null (it is after \<open>skb_orphan\<close>) this is a
  null pointer dereference.
\<close>

definition fq_enqueue_flow ::
  "env \<Rightarrow> flow_ref \<Rightarrow> sk_buff \<Rightarrow> fq_sched_data \<Rightarrow> xmit_result \<times> fq_sched_data" where
  "fq_enqueue_flow e r skb q =
     (let f = get_flow q r
      in if qlen f \<ge> flow_plimit q \<and> r \<noteq> Internal
         then (NET_XMIT_DROP, qdisc_drop (q\<lparr>stat_flows_plimit := stat_flows_plimit q + 1\<rparr>))
         else
           let q1 = (put_flow q r (f\<lparr>qlen := qlen f + 1\<rparr>))
                      \<lparr>sch_backlog := sch_backlog q + pkt_len skb\<rparr>
           in if fq_flow_is_detached (get_flow q1 r) then
                (let q2 = fq_flow_add_tail q1 NEW_FLOWS r
                 in case sk skb of
                      None \<Rightarrow> (NULL_DEREFERENCE, q2)
                    | Some s \<Rightarrow>
                        let q3 = q2\<lparr>sport := ucast (sk_num s), dport := ucast (sk_dport s)\<rparr>;
                            f3 = get_flow q3 r;
                            q4 = (if time_after (jiffies e)
                                       (flow_age f3 + ucast (flow_refill_delay q3))
                                  then put_flow q3 r (f3\<lparr>credit := max (credit f3) (quantum q3)\<rparr>)
                                  else q3)
                        in fq_enqueue_finish r skb
                             (q4\<lparr>inactive_flows := inactive_flows q4 - 1\<rparr>))
              else fq_enqueue_finish r skb q1)"

definition fq_enqueue ::
  "env \<Rightarrow> sk_buff \<Rightarrow> fq_sched_data \<Rightarrow> xmit_result \<times> fq_sched_data" where
  "fq_enqueue e skb q =
     (if sch_qlen q \<ge> sch_limit q then (NET_XMIT_DROP, qdisc_drop q)
      else case fq_enqueue_tstamp e skb q of
             (None, q1) \<Rightarrow> (NET_XMIT_DROP, qdisc_drop q1)
           | (Some skb1, q1) \<Rightarrow>
               (case fq_classify e skb1 q1 of (r, skb2, q2) \<Rightarrow> fq_enqueue_flow e r skb2 q2))"

section \<open>Dequeue\<close>

function fq_check_throttled_loop :: "u64 \<Rightarrow> fq_sched_data \<Rightarrow> fq_sched_data" where
  "fq_check_throttled_loop now q =
     (case delayed q of
        [] \<Rightarrow> q
      | r # _ \<Rightarrow>
          if time_next_packet (get_flow q r) > now
          then q\<lparr>time_next_delayed_flow := time_next_packet (get_flow q r)\<rparr>
          else fq_check_throttled_loop now (fq_flow_unset_throttled q r))"
  by pat_completeness auto
termination
  by (relation "measure (\<lambda>(now, q). length (delayed q))")
     (auto simp: fq_flow_unset_throttled_def fq_flow_add_tail_def put_flow_def set_list_def
        get_list_def Let_def split: flow_ref.splits)

declare fq_check_throttled_loop.simps [simp del]

definition fq_check_throttled :: "fq_sched_data \<Rightarrow> u64 \<Rightarrow> fq_sched_data" where
  "fq_check_throttled q now =
     (if time_next_delayed_flow q > now then q
      else
        let sample = now - time_next_delayed_flow q;
            q1 = q\<lparr>unthrottle_latency_ns :=
                     unthrottle_latency_ns q - drop_bit 3 (unthrottle_latency_ns q)\<rparr>;
            q2 = q1\<lparr>unthrottle_latency_ns := unthrottle_latency_ns q1 + drop_bit 3 sample\<rparr>
        in fq_check_throttled_loop now (q2\<lparr>time_next_delayed_flow := - 1\<rparr>))"

definition fq_dequeue_skb :: "fq_sched_data \<Rightarrow> flow_ref \<Rightarrow> sk_buff \<Rightarrow> fq_sched_data" where
  "fq_dequeue_skb q r skb =
     (let f = fq_erase_head (get_flow q r) skb
      in (put_flow q r (f\<lparr>qlen := qlen f - 1\<rparr>))
           \<lparr>sch_backlog := sch_backlog q - pkt_len skb, sch_qlen := sch_qlen q - 1\<rparr>)"

definition qdisc_bstats_update :: "fq_sched_data \<Rightarrow> sk_buff \<Rightarrow> fq_sched_data" where
  "qdisc_bstats_update q skb =
     q\<lparr>bstats_bytes := bstats_bytes q + ucast (pkt_len skb),
       bstats_packets := bstats_packets q + 1\<rparr>"

text \<open>
  Modelled from the spec: \<open>valuePresentInArray\<close> and \<open>Promotecoflows\<close> are defined in
  \<open>fqtest.h\<close>, which is not among the sources. Section 4.6, step 6: if \<open>f.socket_hash\<close>
  is one of the co-flow ids, move \<open>f\<close> from its current list to \<open>co_flows\<close>. The first
  returns the index of the value in the array, or \<open>-1\<close>.
\<close>

fun valuePresentInArray :: "u32 \<Rightarrow> u32 list \<Rightarrow> int" where
  "valuePresentInArray v [] = - 1"
| "valuePresentInArray v (x # xs) =
     (if x = v then 0
      else (let i = valuePresentInArray v xs in if i = - 1 then - 1 else i + 1))"

definition Promotecoflows :: "fq_sched_data \<Rightarrow> flow_ref \<Rightarrow> fq_sched_data" where
  "Promotecoflows q r =
     fq_flow_add_tail
       (if r \<in> set (new_flows q) then q\<lparr>new_flows := remove1 r (new_flows q)\<rparr>
        else q\<lparr>old_flows := remove1 r (old_flows q)\<rparr>)
       CO_FLOWS r"

text \<open>Lines 583 to 605: the list \<open>head\<close> points to, or \<open>None\<close> when all are empty.\<close>

definition select_head :: "fq_sched_data \<Rightarrow> list_id option" where
  "select_head q =
     (let h = (if flipflag q \<noteq> 0 then CO_FLOWS else NEW_FLOWS)
      in if get_list q h \<noteq> [] then Some h
         else if new_flows q \<noteq> [] then Some NEW_FLOWS
         else if old_flows q \<noteq> [] then Some OLD_FLOWS
         else None)"

text \<open>\<open>head->first = f->next\<close>, for the first flow \<open>f\<close> of the list.\<close>

definition pop_first :: "fq_sched_data \<Rightarrow> list_id \<Rightarrow> fq_sched_data" where
  "pop_first q h = set_list q h (tl (get_list q h))"

text \<open>Lines 723 to 741: the pacing delay of the flow after a packet of length \<open>plen\<close>.\<close>

definition fq_pace :: "u64 \<Rightarrow> flow_ref \<Rightarrow> ulong \<Rightarrow> u32 \<Rightarrow> fq_sched_data \<Rightarrow> fq_sched_data" where
  "fq_pace now r rate plen q =
     (if rate \<noteq> - 1 then
        (let len0 = ucast plen * 1000000000;
             len1 = (if rate \<noteq> 0 then len0 div rate else len0);
             q1 = (if len1 > 1000000000
                   then q\<lparr>stat_pkts_too_long := stat_pkts_too_long q + 1\<rparr> else q);
             len2 = (if len1 > 1000000000 then 1000000000 else len1);
             f = get_flow q1 r;
             len3 = (if time_next_packet f \<noteq> 0
                     then len2 - min (len2 div 2) (now - time_next_packet f) else len2)
         in put_flow q1 r (f\<lparr>time_next_packet := now + len3\<rparr>))
      else q)"

text \<open>Lines 702 to 741, after the packet \<open>skb\<close> has been taken from flow \<open>r\<close>.\<close>

definition fq_dequeue_credit :: "u64 \<Rightarrow> flow_ref \<Rightarrow> sk_buff \<Rightarrow> fq_sched_data \<Rightarrow> fq_sched_data" where
  "fq_dequeue_credit now r skb q =
     (let plen = pkt_len skb;
          f = get_flow q r;
          q1 = put_flow q r (f\<lparr>credit := credit f - plen\<rparr>)
      in if rate_enable q1 = 0 then q1
         else if tstamp skb = 0 then
           (let rate = (case sk skb of None \<Rightarrow> flow_max_rate q1
                        | Some s \<Rightarrow> min (sk_pacing_rate s) (flow_max_rate q1))
            in if rate \<le> ucast (low_rate_threshold q1)
               then fq_pace now r rate plen (put_flow q1 r ((get_flow q1 r)\<lparr>credit := 0\<rparr>))
               else if sint (credit (get_flow q1 r)) > 0 then q1
               else fq_pace now r rate (max plen (quantum q1)) q1)
         else fq_pace now r (flow_max_rate q1) plen q1)"

datatype pass_result = Restart fq_sched_data | Return "sk_buff option" fq_sched_data

text \<open>Lines 662 to 745: flow \<open>r\<close> is the first of list \<open>h\<close>.\<close>

definition fq_dequeue_flow :: "env \<Rightarrow> list_id \<Rightarrow> flow_ref \<Rightarrow> fq_sched_data \<Rightarrow> pass_result" where
  "fq_dequeue_flow e h r q =
     (let f = get_flow q r; now = ktime_ns e
      in if sint (credit f) \<le> 0 then
           Restart (fq_flow_add_tail
                      (pop_first (put_flow q r (f\<lparr>credit := credit f + quantum q\<rparr>)) h)
                      OLD_FLOWS r)
         else
           case fq_peek f of
             Some skb \<Rightarrow>
               (let tnp = max (time_to_send skb) (time_next_packet f)
                in if now < tnp then
                     Restart (fq_flow_set_throttled
                                (put_flow (pop_first q h) r (f\<lparr>time_next_packet := tnp\<rparr>)) r)
                   else
                     let marked = (sint (now - tnp - ce_threshold q) > 0);
                         skb1 = (if marked then skb\<lparr>ce := True\<rparr> else skb);
                         q1 = (if marked then q\<lparr>stat_ce_mark := stat_ce_mark q + 1\<rparr> else q);
                         q2 = fq_dequeue_skb q1 r skb;
                         q3 = fq_dequeue_credit now r skb1 q2
                     in Return (Some skb1) (qdisc_bstats_update q3 skb1))
           | None \<Rightarrow>
               (let q1 = pop_first q h
                in if (h = NEW_FLOWS \<or> h = CO_FLOWS) \<and> old_flows q1 \<noteq> []
                   then Restart (fq_flow_add_tail q1 OLD_FLOWS r)
                   else Restart ((put_flow q1 r (fq_flow_set_detached e (get_flow q1 r)))
                                   \<lparr>inactive_flows := inactive_flows q1 + 1\<rparr>)))"

text \<open>
  One pass from the label \<open>begin\<close> (lines 581 to 745): \<open>Restart\<close> is \<open>goto begin\<close>,
  \<open>Return\<close> is a \<open>return\<close>.
\<close>

definition fq_dequeue_pass :: "env \<Rightarrow> fq_sched_data \<Rightarrow> pass_result" where
  "fq_dequeue_pass e q =
     (case select_head q of
        None \<Rightarrow>
          Return None
            (if time_next_delayed_flow q \<noteq> - 1
             then q\<lparr>watchdog := Some (time_next_delayed_flow q, timer_slack q)\<rparr> else q)
      | Some h \<Rightarrow>
          let r = hd (get_list q h);
              f = get_flow q r;
              rValue = valuePresentInArray (socket_hash f) [pFlowid0 q, pFlowid1 q]
          in if rValue \<noteq> - 1 \<and> h \<noteq> CO_FLOWS
             then Restart ((Promotecoflows q r)\<lparr>ucounter := ucounter q + 1\<rparr>)
             else if ucounter q = 2 \<and> h \<noteq> CO_FLOWS then Restart (q\<lparr>flipflag := 1\<rparr>)
             else if ucounter q = 0 \<and> h = CO_FLOWS then Restart (q\<lparr>flipflag := 0\<rparr>)
             else fq_dequeue_flow e h r
                    (if flipflag q \<noteq> 0 \<and> h = CO_FLOWS
                     then q\<lparr>ucounter := ucounter q - 1\<rparr> else q))"

text \<open>
  The loop at \<open>begin\<close>, with fuel: \<open>None\<close> when the given number of passes is not
  enough to reach a \<open>return\<close>.
\<close>

fun fq_dequeue_begin :: "nat \<Rightarrow> env \<Rightarrow> fq_sched_data \<Rightarrow> (sk_buff option \<times> fq_sched_data) option" where
  "fq_dequeue_begin 0 e q = None"
| "fq_dequeue_begin (Suc n) e q =
     (case fq_dequeue_pass e q of
        Restart q1 \<Rightarrow> fq_dequeue_begin n e q1
      | Return res q1 \<Rightarrow> Some (res, q1))"

definition fq_dequeue :: "nat \<Rightarrow> env \<Rightarrow> fq_sched_data \<Rightarrow> (sk_buff option \<times> fq_sched_data) option" where
  "fq_dequeue n e q =
     (if sch_qlen q = 0 then Some (None, q)
      else case fq_peek (internal q) of
             Some skb \<Rightarrow> Some (Some skb, qdisc_bstats_update (fq_dequeue_skb q Internal skb) skb)
           | None \<Rightarrow>
               fq_dequeue_begin n e
                 (fq_check_throttled (q\<lparr>ktime_cache := ktime_ns e\<rparr>) (ktime_ns e)))"

section \<open>Reset, resize, change and init\<close>

definition fq_flow_purge :: "fq_flow \<Rightarrow> fq_flow" where
  "fq_flow_purge flow = flow\<lparr>t_root := [], head := [], qlen := 0\<rparr>"

text \<open>\<open>fq_reset\<close> frees every flow of the table; the file-scope variables are not touched.\<close>

definition fq_reset :: "fq_sched_data \<Rightarrow> fq_sched_data" where
  "fq_reset q =
     (let q1 = q\<lparr>sch_qlen := 0, sch_backlog := 0, internal := fq_flow_purge (internal q)\<rparr>
      in if \<not> fq_root_allocated q1 then q1
         else q1\<lparr>fq_root := [], new_flows := [], old_flows := [], co_flows := [],
                 delayed := [], flows := 0, inactive_flows := 0, throttled_flows := 0\<rparr>)"

definition fq_rehash :: "env \<Rightarrow> fq_sched_data \<Rightarrow> fq_sched_data" where
  "fq_rehash e q =
     (let fcnt = length (filter (\<lambda>n. fq_gc_candidate e (flow_at q n)) (fq_root q))
      in q\<lparr>fq_root := filter (\<lambda>n. \<not> fq_gc_candidate e (flow_at q n)) (fq_root q),
            flows := flows q - of_nat fcnt,
            inactive_flows := inactive_flows q - of_nat fcnt,
            stat_gc_flows := stat_gc_flows q + of_nat fcnt\<rparr>)"

definition fq_resize :: "env \<Rightarrow> fq_sched_data \<Rightarrow> u32 \<Rightarrow> int \<times> fq_sched_data" where
  "fq_resize e q log =
     (if fq_root_allocated q \<and> log = ucast (fq_trees_log q) then (0, q)
      else if \<not> array_alloc_ok e then (- 12, q)
      else
        let q1 = (if fq_root_allocated q then fq_rehash e q else q)
        in (0, q1\<lparr>fq_root_allocated := True, fq_trees_log := ucast log\<rparr>))"

text \<open>The netlink attributes \<open>tb[]\<close> after parsing: \<open>None\<close> for an absent attribute.\<close>

record fq_attrs =
  TCA_FQ_PLIMIT :: "u32 option"
  TCA_FQ_FLOW_PLIMIT :: "u32 option"
  TCA_FQ_QUANTUM :: "u32 option"
  TCA_FQ_INITIAL_QUANTUM :: "u32 option"
  TCA_FQ_RATE_ENABLE :: "u32 option"
  TCA_FQ_FLOW_DEFAULT_RATE :: "u32 option"
  TCA_FQ_FLOW_MAX_RATE :: "u32 option"
  TCA_FQ_BUCKETS_LOG :: "u32 option"
  TCA_FQ_FLOW_REFILL_DELAY :: "u32 option"
  TCA_FQ_ORPHAN_MASK :: "u32 option"
  TCA_FQ_LOW_RATE_THRESHOLD :: "u32 option"
  TCA_FQ_CE_THRESHOLD :: "u32 option"
  TCA_FQ_TIMER_SLACK :: "u32 option"
  TCA_FQ_HORIZON :: "u32 option"
  TCA_FQ_HORIZON_DROP :: "u8 option"
  TCA_FQ_F1_SOURCEPORT :: "u32 option"
  TCA_FQ_F2_SOURCEPORT :: "u32 option"
  TCA_FQ_F1_DESTPORT :: "u32 option"
  TCA_FQ_F2_DESTPORT :: "u32 option"

text \<open>
  The argument \<open>opt\<close> of \<open>fq_change\<close>: null, a blob that \<open>nla_parse_nested_deprecated\<close>
  rejects with a negative error, or a blob that parses.
\<close>

datatype nlattr = OPT_NULL | OPT_INVALID int | OPT_ATTRS fq_attrs

definition EINVAL :: int where "EINVAL = 22"

text \<open>
  Lines 912 to 993: the value of \<open>err\<close>, of \<open>fq_log\<close> and the state. Each
  \<open>if (tb[X]) q->x = v\<close> is written as an assignment of either \<open>v\<close> or the old value.
\<close>

definition fq_change_attrs :: "env \<Rightarrow> fq_attrs \<Rightarrow> fq_sched_data \<Rightarrow> int \<times> u32 \<times> fq_sched_data" where
  "fq_change_attrs e tb q =
     (let log_ok = (\<lambda>nval :: u32. nval \<ge> 1 \<and> nval \<le> 18);
          quantum_ok = (\<lambda>v :: u32. v > 0 \<and> v \<le> push_bit 20 1);
          fq_log = (case TCA_FQ_BUCKETS_LOG tb of
                      Some nval \<Rightarrow> if log_ok nval then nval else ucast (fq_trees_log q)
                    | None \<Rightarrow> ucast (fq_trees_log q));
          err1 = (case TCA_FQ_BUCKETS_LOG tb of
                    Some nval \<Rightarrow> if log_ok nval then 0 else - EINVAL | None \<Rightarrow> 0);
          err2 = (case TCA_FQ_QUANTUM tb of
                    Some v \<Rightarrow> if quantum_ok v then err1 else - EINVAL | None \<Rightarrow> err1);
          err3 = (case TCA_FQ_RATE_ENABLE tb of
                    Some v \<Rightarrow> if v \<le> 1 then err2 else - EINVAL | None \<Rightarrow> err2)
      in (err3, fq_log,
          q\<lparr>sch_limit := (case TCA_FQ_PLIMIT tb of Some v \<Rightarrow> v | None \<Rightarrow> sch_limit q),
            flow_plimit := (case TCA_FQ_FLOW_PLIMIT tb of Some v \<Rightarrow> v | None \<Rightarrow> flow_plimit q),
            quantum := (case TCA_FQ_QUANTUM tb of
                          Some v \<Rightarrow> if quantum_ok v then v else quantum q | None \<Rightarrow> quantum q),
            initial_quantum := (case TCA_FQ_INITIAL_QUANTUM tb of
                                  Some v \<Rightarrow> v | None \<Rightarrow> initial_quantum q),
            flow_max_rate := (case TCA_FQ_FLOW_MAX_RATE tb of
                                Some v \<Rightarrow> if v = - 1 then - 1 else ucast v
                              | None \<Rightarrow> flow_max_rate q),
            low_rate_threshold := (case TCA_FQ_LOW_RATE_THRESHOLD tb of
                                     Some v \<Rightarrow> v | None \<Rightarrow> low_rate_threshold q),
            rate_enable := (case TCA_FQ_RATE_ENABLE tb of
                              Some v \<Rightarrow> if v \<le> 1 then ucast v else rate_enable q
                            | None \<Rightarrow> rate_enable q),
            flow_refill_delay := (case TCA_FQ_FLOW_REFILL_DELAY tb of
                                    Some v \<Rightarrow> ucast (usecs_to_jiffies e v)
                                  | None \<Rightarrow> flow_refill_delay q),
            orphan_mask := (case TCA_FQ_ORPHAN_MASK tb of Some v \<Rightarrow> v | None \<Rightarrow> orphan_mask q),
            ce_threshold := (case TCA_FQ_CE_THRESHOLD tb of
                               Some v \<Rightarrow> 1000 * ucast v | None \<Rightarrow> ce_threshold q),
            timer_slack := (case TCA_FQ_TIMER_SLACK tb of Some v \<Rightarrow> v | None \<Rightarrow> timer_slack q),
            horizon := (case TCA_FQ_HORIZON tb of Some v \<Rightarrow> 1000 * ucast v | None \<Rightarrow> horizon q),
            horizon_drop := (case TCA_FQ_HORIZON_DROP tb of
                               Some v \<Rightarrow> v | None \<Rightarrow> horizon_drop q),
            f1_sourceport := (case TCA_FQ_F1_SOURCEPORT tb of
                                Some v \<Rightarrow> v | None \<Rightarrow> f1_sourceport q),
            f2_sourceport := (case TCA_FQ_F2_SOURCEPORT tb of
                                Some v \<Rightarrow> v | None \<Rightarrow> f2_sourceport q),
            f1_destport := (case TCA_FQ_F1_DESTPORT tb of Some v \<Rightarrow> v | None \<Rightarrow> f1_destport q),
            f2_destport := (case TCA_FQ_F2_DESTPORT tb of
                              Some v \<Rightarrow> v | None \<Rightarrow> f2_destport q)\<rparr>))"

text \<open>
  Lines 1000 to 1007: packets over the new limit are dequeued and freed. The fuel bounds both
  the number of packets and the passes of each \<open>fq_dequeue\<close>.
\<close>

fun fq_change_trim :: "nat \<Rightarrow> env \<Rightarrow> fq_sched_data \<Rightarrow> fq_sched_data option" where
  "fq_change_trim 0 e q = None"
| "fq_change_trim (Suc n) e q =
     (if sch_qlen q > sch_limit q then
        (case fq_dequeue n e q of
           None \<Rightarrow> None
         | Some (None, q1) \<Rightarrow> Some q1
         | Some (Some skb, q1) \<Rightarrow> fq_change_trim n e q1)
      else Some q)"

definition fq_change :: "nat \<Rightarrow> env \<Rightarrow> nlattr \<Rightarrow> fq_sched_data \<Rightarrow> (int \<times> fq_sched_data) option" where
  "fq_change n e opt q =
     (case opt of
        OPT_NULL \<Rightarrow> Some (- EINVAL, q)
      | OPT_INVALID err \<Rightarrow> Some (err, q)
      | OPT_ATTRS tb \<Rightarrow>
          (case fq_change_attrs e tb q of
             (err, fq_log, q1) \<Rightarrow>
               (case (if err = 0 then fq_resize e q1 fq_log else (err, q1)) of
                  (err1, q2) \<Rightarrow>
                    (case fq_change_trim n e q2 of
                       None \<Rightarrow> None
                     | Some q3 \<Rightarrow> Some (err1, q3)))))"

definition fq_init :: "nat \<Rightarrow> env \<Rightarrow> nlattr \<Rightarrow> fq_sched_data \<Rightarrow> (int \<times> fq_sched_data) option" where
  "fq_init n e opt q =
     (let q1 = q\<lparr>sch_limit := 10000,
                 flow_plimit := 100,
                 quantum := 2 * psched_mtu e,
                 initial_quantum := 10 * psched_mtu e,
                 flow_refill_delay := ucast (msecs_to_jiffies e 40),
                 flow_max_rate := - 1,
                 time_next_delayed_flow := - 1,
                 rate_enable := 1,
                 new_flows := [], old_flows := [], co_flows := [], delayed := [],
                 fq_root_allocated := False, fq_root := [],
                 fq_trees_log := 10,
                 orphan_mask := 1023,
                 low_rate_threshold := 68750,
                 f1_sourceport := 0, f2_sourceport := 0, f1_destport := 0, f2_destport := 0,
                 timer_slack := 10000,
                 horizon := 10000000000,
                 horizon_drop := 1,
                 ce_threshold := 1000 * 4294967295,
                 watchdog := None\<rparr>
      in case opt of
           OPT_NULL \<Rightarrow> Some (fq_resize e q1 (ucast (fq_trees_log q1)))
         | _ \<Rightarrow> fq_change n e opt q1)"

section \<open>Definitions used to state the properties\<close>

subsection \<open>Packets of one flow\<close>

definition flow_sorted :: "fq_flow \<Rightarrow> bool" where
  "flow_sorted f =
     (sorted (map time_to_send (head f)) \<and> sorted (map time_to_send (t_root f)))"

definition flow_pkts :: "fq_flow \<Rightarrow> sk_buff set" where
  "flow_pkts f = set (head f) \<union> set (t_root f)"

text \<open>
  Successive peeks on a flow, each followed by the removal of the packet peeked (as
  \<open>fq_dequeue\<close> does with \<open>fq_dequeue_skb\<close>).
\<close>

fun successive_peeks :: "nat \<Rightarrow> fq_flow \<Rightarrow> sk_buff list" where
  "successive_peeks 0 f = []"
| "successive_peeks (Suc n) f =
     (case fq_peek f of None \<Rightarrow> [] | Some p \<Rightarrow> p # successive_peeks n (fq_erase_head f p))"

text \<open>A history of one flow: packets added and packets taken, starting from a new flow.\<close>

datatype flow_op = Enq sk_buff | Deq

fun flow_run :: "flow_op list \<Rightarrow> fq_flow \<Rightarrow> fq_flow" where
  "flow_run [] f = f"
| "flow_run (Enq skb # ops) f = flow_run ops (flow_queue_add f skb)"
| "flow_run (Deq # ops) f =
     flow_run ops (case fq_peek f of None \<Rightarrow> f | Some p \<Rightarrow> fq_erase_head f p)"

definition pkt_at :: "u64 \<Rightarrow> sk_buff" where
  "pkt_at t = \<lparr>tstamp = t, priority = 0, sk = None, skb_hash = 0, pkt_len = 100,
     time_to_send = t, ce = False\<rparr>"

subsection \<open>Histories of the scheduler\<close>

datatype sched_op = ENQUEUE sk_buff | DEQUEUE | RESET | CHANGE nlattr

datatype op_result = ENQUEUED xmit_result | DEQUEUED "sk_buff option" | RESET_DONE | CHANGED int

fun sched_run ::
  "nat \<Rightarrow> env \<Rightarrow> sched_op list \<Rightarrow> fq_sched_data \<Rightarrow> (op_result list \<times> fq_sched_data) option" where
  "sched_run n e [] q = Some ([], q)"
| "sched_run n e (ENQUEUE skb # ops) q =
     (case fq_enqueue e skb q of
        (res, q1) \<Rightarrow>
          if res = NULL_DEREFERENCE then Some ([ENQUEUED res], q1)
          else map_option (\<lambda>(rs, q2). (ENQUEUED res # rs, q2)) (sched_run n e ops q1))"
| "sched_run n e (DEQUEUE # ops) q =
     (case fq_dequeue n e q of
        None \<Rightarrow> None
      | Some (res, q1) \<Rightarrow>
          map_option (\<lambda>(rs, q2). (DEQUEUED res # rs, q2)) (sched_run n e ops q1))"
| "sched_run n e (RESET # ops) q =
     map_option (\<lambda>(rs, q2). (RESET_DONE # rs, q2)) (sched_run n e ops (fq_reset q))"
| "sched_run n e (CHANGE opt # ops) q =
     (case fq_change n e opt q of
        None \<Rightarrow> None
      | Some (err, q1) \<Rightarrow>
          map_option (\<lambda>(rs, q2). (CHANGED err # rs, q2)) (sched_run n e ops q1))"

text \<open>The zero-filled private data of a new qdisc, with the file-scope variables at zero.\<close>

definition sched_zero :: fq_sched_data where
  "sched_zero = \<lparr>sch_qlen = 0, sch_limit = 0, sch_backlog = 0, sch_drops = 0,
     bstats_bytes = 0, bstats_packets = 0,
     new_flows = [], old_flows = [], co_flows = [], delayed = [],
     time_next_delayed_flow = 0, ktime_cache = 0, unthrottle_latency_ns = 0,
     internal = flow_zero, fq_root_allocated = False, fq_root = [], flow_at = (\<lambda>k. flow_zero),
     quantum = 0, initial_quantum = 0, flow_refill_delay = 0, flow_plimit = 0,
     flow_max_rate = 0, ce_threshold = 0, horizon = 0, orphan_mask = 0,
     low_rate_threshold = 0, rate_enable = 0, fq_trees_log = 0, horizon_drop = 0,
     timer_slack = 0, flows = 0, inactive_flows = 0, throttled_flows = 0,
     stat_gc_flows = 0, stat_internal_packets = 0, stat_throttled = 0, stat_ce_mark = 0,
     stat_horizon_drops = 0, stat_horizon_caps = 0, stat_flows_plimit = 0,
     stat_pkts_too_long = 0, stat_allocation_errors = 0,
     f1_sourceport = 0, f2_sourceport = 0, f1_destport = 0, f2_destport = 0,
     watchdog = None, pFlowid0 = 0, pFlowid1 = 0, ucounter = 0, flipflag = 0,
     sport = 0, dport = 0\<rparr>"

definition env0 :: env where
  "env0 = \<lparr>ktime_ns = 1000, jiffies = 5000, HZ = 250, flow_alloc_ok = True,
     array_alloc_ok = True, gc_path = [],
     usecs_to_jiffies = (\<lambda>u. ucast u div 4000), msecs_to_jiffies = (\<lambda>m. ucast m div 4),
     psched_mtu = 1514\<rparr>"

text \<open>The scheduler after \<open>fq_init\<close> without options.\<close>

definition sched0 :: fq_sched_data where
  "sched0 =
     (case fq_init 0 env0 OPT_NULL sched_zero of Some (err, q) \<Rightarrow> q | None \<Rightarrow> sched_zero)"

definition mk_sock :: "ulong \<Rightarrow> u32 \<Rightarrow> u16 \<Rightarrow> sock" where
  "mk_sock a h p = \<lparr>sk_addr = a, sk_hash = h, sk_state = TCP_ESTABLISHED, sk_num = p,
     sk_dport = 5800, sk_pacing_rate = - 1, sk_pacing_status = 0\<rparr>"

definition mk_skb :: "sock \<Rightarrow> u32 \<Rightarrow> u64 \<Rightarrow> sk_buff" where
  "mk_skb s h t = \<lparr>tstamp = t, priority = 0, sk = Some s, skb_hash = h, pkt_len = 1000,
     time_to_send = 0, ce = False\<rparr>"

text \<open>
  Three connected sockets: \<open>sock_A\<close> and \<open>sock_B\<close> send from the ports 46730 and 46731,
  \<open>sock_C\<close> from port 1234.
\<close>

definition sock_A :: sock where "sock_A = mk_sock 4096 11 46730"
definition sock_B :: sock where "sock_B = mk_sock 8192 22 46731"
definition sock_C :: sock where "sock_C = mk_sock 12288 33 1234"

definition no_attrs :: fq_attrs where
  "no_attrs = \<lparr>TCA_FQ_PLIMIT = None, TCA_FQ_FLOW_PLIMIT = None, TCA_FQ_QUANTUM = None,
     TCA_FQ_INITIAL_QUANTUM = None, TCA_FQ_RATE_ENABLE = None, TCA_FQ_FLOW_DEFAULT_RATE = None,
     TCA_FQ_FLOW_MAX_RATE = None, TCA_FQ_BUCKETS_LOG = None, TCA_FQ_FLOW_REFILL_DELAY = None,
     TCA_FQ_ORPHAN_MASK = None, TCA_FQ_LOW_RATE_THRESHOLD = None, TCA_FQ_CE_THRESHOLD = None,
     TCA_FQ_TIMER_SLACK = None, TCA_FQ_HORIZON = None, TCA_FQ_HORIZON_DROP = None,
     TCA_FQ_F1_SOURCEPORT = None, TCA_FQ_F2_SOURCEPORT = None, TCA_FQ_F1_DESTPORT = None,
     TCA_FQ_F2_DESTPORT = None\<rparr>"

subsection \<open>The tree of throttled flows\<close>

definition list_min :: "('a \<Rightarrow> u64) \<Rightarrow> 'a list \<Rightarrow> u64" where
  "list_min key xs = foldr (\<lambda>r m. min (key r) m) xs (- 1)"

text \<open>
  The minimum \<open>time_next_packet\<close> over the flows of the tree \<open>delayed\<close>, or all ones when
  the tree is empty.
\<close>

definition delayed_min :: "fq_sched_data \<Rightarrow> u64" where
  "delayed_min q = list_min (\<lambda>r. time_next_packet (get_flow q r)) (delayed q)"

definition delayed_sorted :: "fq_sched_data \<Rightarrow> bool" where
  "delayed_sorted q = sorted (map (\<lambda>r. time_next_packet (get_flow q r)) (delayed q))"

text \<open>
  A packet of \<open>sock_C\<close> due at 5000 is queued at time 1000; the dequeue throttles the flow.
\<close>

definition c7_state :: fq_sched_data where
  "c7_state =
     (case sched_run 5 env0 [ENQUEUE (mk_skb sock_C 103 5000), DEQUEUE] sched0 of
        Some (rs, q) \<Rightarrow> q | None \<Rightarrow> sched_zero)"

subsection \<open>The loop of dequeue\<close>

definition pass_state :: "pass_result \<Rightarrow> fq_sched_data" where
  "pass_state p = (case p of Restart q \<Rightarrow> q | Return res q \<Rightarrow> q)"

definition is_co_flow :: "fq_sched_data \<Rightarrow> flow_ref \<Rightarrow> bool" where
  "is_co_flow q r =
     (valuePresentInArray (socket_hash (get_flow q r)) [pFlowid0 q, pFlowid1 q] \<noteq> - 1)"

text \<open>
  A state in which the loop spins: two promotions are counted, \<open>co_flows\<close> is empty and the
  first flow of \<open>new_flows\<close> is not a co-flow.
\<close>

definition spin_state :: "fq_sched_data \<Rightarrow> bool" where
  "spin_state q =
     (ucounter q = 2 \<and> co_flows q = [] \<and> new_flows q \<noteq> [] \<and>
      \<not> is_co_flow q (hd (new_flows q)))"

text \<open>
  Packets of \<open>sock_A\<close> and \<open>sock_B\<close> are queued, a dequeue promotes both flows (and returns
  nothing, since only \<open>co_flows\<close> holds flows), the qdisc is reset, and a packet of
  \<open>sock_C\<close> is queued.
\<close>

definition c2_state :: fq_sched_data where
  "c2_state =
     (case sched_run 5 env0
             [ENQUEUE (mk_skb sock_A 101 0), ENQUEUE (mk_skb sock_B 102 0), DEQUEUE, RESET,
              ENQUEUE (mk_skb sock_C 103 0)] sched0 of
        Some (rs, q) \<Rightarrow> q | None \<Rightarrow> sched_zero)"

text \<open>
  Packets of \<open>sock_A\<close> (due at 5000), \<open>sock_B\<close> and \<open>sock_C\<close> (both due at once) are
  queued at time 1000.
\<close>

definition c3_state :: fq_sched_data where
  "c3_state =
     (case sched_run 5 env0
             [ENQUEUE (mk_skb sock_A 101 5000), ENQUEUE (mk_skb sock_B 102 0),
              ENQUEUE (mk_skb sock_C 103 0)] sched0 of
        Some (rs, q) \<Rightarrow> q | None \<Rightarrow> sched_zero)"

subsection \<open>Configuration\<close>

definition fq_config ::
  "fq_sched_data \<Rightarrow> (u32 \<times> u32 \<times> u32 \<times> u32 \<times> ulong \<times> u32 \<times> u8 \<times> u32 \<times> u32 \<times> u64) \<times>
     (u32 \<times> u64 \<times> u8 \<times> u32 \<times> u32 \<times> u32 \<times> u32 \<times> u8 \<times> bool)" where
  "fq_config q =
     ((sch_limit q, flow_plimit q, quantum q, initial_quantum q, flow_max_rate q,
       low_rate_threshold q, rate_enable q, flow_refill_delay q, orphan_mask q, ce_threshold q),
      (timer_slack q, horizon q, horizon_drop q, f1_sourceport q, f2_sourceport q,
       f1_destport q, f2_destport q, fq_trees_log q, fq_root_allocated q))"

definition quantum_in_range :: "u32 \<Rightarrow> bool" where
  "quantum_in_range v = (v > 0 \<and> v \<le> 1048576)"

definition buckets_log_in_range :: "u32 \<Rightarrow> bool" where
  "buckets_log_in_range v = (v \<ge> 1 \<and> v \<le> 18)"

text \<open>Some attribute of the blob is out of range.\<close>

definition attrs_out_of_range :: "fq_attrs \<Rightarrow> bool" where
  "attrs_out_of_range tb =
     ((case TCA_FQ_QUANTUM tb of Some v \<Rightarrow> \<not> quantum_in_range v | None \<Rightarrow> False) \<or>
      (case TCA_FQ_BUCKETS_LOG tb of Some v \<Rightarrow> \<not> buckets_log_in_range v | None \<Rightarrow> False) \<or>
      (case TCA_FQ_RATE_ENABLE tb of Some v \<Rightarrow> v > 1 | None \<Rightarrow> False))"

text \<open>
  Every attribute of the blob that is present and in range is the value of its parameter in
  \<open>q'\<close>; the parameters of the other attributes are as in \<open>q\<close>.
\<close>

definition attrs_applied :: "env \<Rightarrow> fq_attrs \<Rightarrow> fq_sched_data \<Rightarrow> fq_sched_data \<Rightarrow> bool" where
  "attrs_applied e tb q q' =
     (sch_limit q' = (case TCA_FQ_PLIMIT tb of Some v \<Rightarrow> v | None \<Rightarrow> sch_limit q) \<and>
      flow_plimit q' = (case TCA_FQ_FLOW_PLIMIT tb of Some v \<Rightarrow> v | None \<Rightarrow> flow_plimit q) \<and>
      quantum q' = (case TCA_FQ_QUANTUM tb of
                      Some v \<Rightarrow> if quantum_in_range v then v else quantum q
                    | None \<Rightarrow> quantum q) \<and>
      initial_quantum q' = (case TCA_FQ_INITIAL_QUANTUM tb of
                              Some v \<Rightarrow> v | None \<Rightarrow> initial_quantum q) \<and>
      flow_max_rate q' = (case TCA_FQ_FLOW_MAX_RATE tb of
                            Some v \<Rightarrow> if v = - 1 then - 1 else ucast v
                          | None \<Rightarrow> flow_max_rate q) \<and>
      low_rate_threshold q' = (case TCA_FQ_LOW_RATE_THRESHOLD tb of
                                 Some v \<Rightarrow> v | None \<Rightarrow> low_rate_threshold q) \<and>
      rate_enable q' = (case TCA_FQ_RATE_ENABLE tb of
                          Some v \<Rightarrow> if v \<le> 1 then ucast v else rate_enable q
                        | None \<Rightarrow> rate_enable q) \<and>
      flow_refill_delay q' = (case TCA_FQ_FLOW_REFILL_DELAY tb of
                                Some v \<Rightarrow> ucast (usecs_to_jiffies e v)
                              | None \<Rightarrow> flow_refill_delay q) \<and>
      orphan_mask q' = (case TCA_FQ_ORPHAN_MASK tb of Some v \<Rightarrow> v | None \<Rightarrow> orphan_mask q) \<and>
      ce_threshold q' = (case TCA_FQ_CE_THRESHOLD tb of
                           Some v \<Rightarrow> 1000 * ucast v | None \<Rightarrow> ce_threshold q) \<and>
      timer_slack q' = (case TCA_FQ_TIMER_SLACK tb of Some v \<Rightarrow> v | None \<Rightarrow> timer_slack q) \<and>
      horizon q' = (case TCA_FQ_HORIZON tb of Some v \<Rightarrow> 1000 * ucast v | None \<Rightarrow> horizon q) \<and>
      horizon_drop q' = (case TCA_FQ_HORIZON_DROP tb of
                           Some v \<Rightarrow> v | None \<Rightarrow> horizon_drop q) \<and>
      f1_sourceport q' = (case TCA_FQ_F1_SOURCEPORT tb of
                            Some v \<Rightarrow> v | None \<Rightarrow> f1_sourceport q) \<and>
      f2_sourceport q' = (case TCA_FQ_F2_SOURCEPORT tb of
                            Some v \<Rightarrow> v | None \<Rightarrow> f2_sourceport q) \<and>
      f1_destport q' = (case TCA_FQ_F1_DESTPORT tb of Some v \<Rightarrow> v | None \<Rightarrow> f1_destport q) \<and>
      f2_destport q' = (case TCA_FQ_F2_DESTPORT tb of Some v \<Rightarrow> v | None \<Rightarrow> f2_destport q))"


subsection \<open>States used in examples\<close>

text \<open>The co-flow source ports are configured as 5000 and 5001.\<close>

definition c1_state :: fq_sched_data where
  "c1_state =
     (case sched_run 5 env0
             [CHANGE (OPT_ATTRS (no_attrs\<lparr>TCA_FQ_F1_SOURCEPORT := Some 5000,
                                          TCA_FQ_F2_SOURCEPORT := Some 5001\<rparr>))] sched0 of
        Some (rs, q) \<Rightarrow> q | None \<Rightarrow> sched_zero)"

text \<open>A packet of \<open>sock_A\<close> has been queued, so \<open>pFlowid[0]\<close> is its masked hash 101.\<close>

definition c5_state :: fq_sched_data where
  "c5_state =
     (case sched_run 5 env0 [ENQUEUE (mk_skb sock_A 101 0)] sched0 of
        Some (rs, q) \<Rightarrow> q | None \<Rightarrow> sched_zero)"

text \<open>The per-flow limit is 1 packet and packets beyond the horizon are capped.\<close>

definition c8_state :: fq_sched_data where
  "c8_state =
     (case sched_run 5 env0
             [CHANGE (OPT_ATTRS (no_attrs\<lparr>TCA_FQ_FLOW_PLIMIT := Some 1,
                                          TCA_FQ_HORIZON_DROP := Some 0\<rparr>))] sched0 of
        Some (rs, q) \<Rightarrow> q | None \<Rightarrow> sched_zero)"

text \<open>
  A control packet (priority 7) of \<open>sock_C\<close> due at 5000 has been queued at time 1000; it is
  in the internal flow.
\<close>

definition c6_state :: fq_sched_data where
  "c6_state =
     (case sched_run 5 env0 [ENQUEUE ((mk_skb sock_C 103 5000)\<lparr>priority := 7\<rparr>)] sched0 of
        Some (rs, q) \<Rightarrow> q | None \<Rightarrow> sched_zero)"

text \<open>The state after the given number of passes of the loop of dequeue.\<close>

fun pass_iter :: "nat \<Rightarrow> env \<Rightarrow> fq_sched_data \<Rightarrow> fq_sched_data" where
  "pass_iter 0 e q = q"
| "pass_iter (Suc k) e q = pass_iter k e (pass_state (fq_dequeue_pass e q))"

text \<open>The state in which a dequeue from \<open>c3_state\<close> at time 1000 reaches \<open>begin\<close>.\<close>

definition c3_begin :: fq_sched_data where
  "c3_begin = fq_check_throttled (c3_state\<lparr>ktime_cache := ktime_ns env0\<rparr>) (ktime_ns env0)"

text \<open>A blob with \<open>quantum\<close> 0 (out of range) and three attributes in range.\<close>

definition c10_attrs :: fq_attrs where
  "c10_attrs = no_attrs\<lparr>TCA_FQ_QUANTUM := Some 0, TCA_FQ_PLIMIT := Some 500,
     TCA_FQ_FLOW_PLIMIT := Some 7, TCA_FQ_BUCKETS_LOG := Some 12\<rparr>"

section \<open>Basic facts about the state\<close>

lemma get_flow_update [simp]:
  "get_flow (sch_qlen_update g1 q) r = get_flow q r"
  "get_flow (sch_limit_update g2 q) r = get_flow q r"
  "get_flow (sch_backlog_update g3 q) r = get_flow q r"
  "get_flow (sch_drops_update g4 q) r = get_flow q r"
  "get_flow (bstats_bytes_update g5 q) r = get_flow q r"
  "get_flow (bstats_packets_update g6 q) r = get_flow q r"
  "get_flow (new_flows_update g7 q) r = get_flow q r"
  "get_flow (old_flows_update g8 q) r = get_flow q r"
  "get_flow (co_flows_update g9 q) r = get_flow q r"
  "get_flow (delayed_update g10 q) r = get_flow q r"
  "get_flow (time_next_delayed_flow_update g11 q) r = get_flow q r"
  "get_flow (ktime_cache_update g12 q) r = get_flow q r"
  "get_flow (unthrottle_latency_ns_update g13 q) r = get_flow q r"
  "get_flow (fq_root_allocated_update g14 q) r = get_flow q r"
  "get_flow (fq_root_update g15 q) r = get_flow q r"
  "get_flow (quantum_update g16 q) r = get_flow q r"
  "get_flow (initial_quantum_update g17 q) r = get_flow q r"
  "get_flow (flow_refill_delay_update g18 q) r = get_flow q r"
  "get_flow (flow_plimit_update g19 q) r = get_flow q r"
  "get_flow (flow_max_rate_update g20 q) r = get_flow q r"
  "get_flow (ce_threshold_update g21 q) r = get_flow q r"
  "get_flow (horizon_update g22 q) r = get_flow q r"
  "get_flow (orphan_mask_update g23 q) r = get_flow q r"
  "get_flow (low_rate_threshold_update g24 q) r = get_flow q r"
  "get_flow (rate_enable_update g25 q) r = get_flow q r"
  "get_flow (fq_trees_log_update g26 q) r = get_flow q r"
  "get_flow (horizon_drop_update g27 q) r = get_flow q r"
  "get_flow (timer_slack_update g28 q) r = get_flow q r"
  "get_flow (flows_update g29 q) r = get_flow q r"
  "get_flow (inactive_flows_update g30 q) r = get_flow q r"
  "get_flow (throttled_flows_update g31 q) r = get_flow q r"
  "get_flow (stat_gc_flows_update g32 q) r = get_flow q r"
  "get_flow (stat_internal_packets_update g33 q) r = get_flow q r"
  "get_flow (stat_throttled_update g34 q) r = get_flow q r"
  "get_flow (stat_ce_mark_update g35 q) r = get_flow q r"
  "get_flow (stat_horizon_drops_update g36 q) r = get_flow q r"
  "get_flow (stat_horizon_caps_update g37 q) r = get_flow q r"
  "get_flow (stat_flows_plimit_update g38 q) r = get_flow q r"
  "get_flow (stat_pkts_too_long_update g39 q) r = get_flow q r"
  "get_flow (stat_allocation_errors_update g40 q) r = get_flow q r"
  "get_flow (f1_sourceport_update g41 q) r = get_flow q r"
  "get_flow (f2_sourceport_update g42 q) r = get_flow q r"
  "get_flow (f1_destport_update g43 q) r = get_flow q r"
  "get_flow (f2_destport_update g44 q) r = get_flow q r"
  "get_flow (watchdog_update g45 q) r = get_flow q r"
  "get_flow (pFlowid0_update g46 q) r = get_flow q r"
  "get_flow (pFlowid1_update g47 q) r = get_flow q r"
  "get_flow (ucounter_update g48 q) r = get_flow q r"
  "get_flow (flipflag_update g49 q) r = get_flow q r"
  "get_flow (sport_update g50 q) r = get_flow q r"
  "get_flow (dport_update g51 q) r = get_flow q r"
  by (simp_all add: get_flow_def split: flow_ref.splits)

lemma put_flow_fields [simp]:
  "sch_qlen (put_flow q r f) = sch_qlen q"
  "sch_limit (put_flow q r f) = sch_limit q"
  "sch_backlog (put_flow q r f) = sch_backlog q"
  "sch_drops (put_flow q r f) = sch_drops q"
  "bstats_bytes (put_flow q r f) = bstats_bytes q"
  "bstats_packets (put_flow q r f) = bstats_packets q"
  "new_flows (put_flow q r f) = new_flows q"
  "old_flows (put_flow q r f) = old_flows q"
  "co_flows (put_flow q r f) = co_flows q"
  "delayed (put_flow q r f) = delayed q"
  "time_next_delayed_flow (put_flow q r f) = time_next_delayed_flow q"
  "ktime_cache (put_flow q r f) = ktime_cache q"
  "unthrottle_latency_ns (put_flow q r f) = unthrottle_latency_ns q"
  "fq_root_allocated (put_flow q r f) = fq_root_allocated q"
  "fq_root (put_flow q r f) = fq_root q"
  "quantum (put_flow q r f) = quantum q"
  "initial_quantum (put_flow q r f) = initial_quantum q"
  "flow_refill_delay (put_flow q r f) = flow_refill_delay q"
  "flow_plimit (put_flow q r f) = flow_plimit q"
  "flow_max_rate (put_flow q r f) = flow_max_rate q"
  "ce_threshold (put_flow q r f) = ce_threshold q"
  "horizon (put_flow q r f) = horizon q"
  "orphan_mask (put_flow q r f) = orphan_mask q"
  "low_rate_threshold (put_flow q r f) = low_rate_threshold q"
  "rate_enable (put_flow q r f) = rate_enable q"
  "fq_trees_log (put_flow q r f) = fq_trees_log q"
  "horizon_drop (put_flow q r f) = horizon_drop q"
  "timer_slack (put_flow q r f) = timer_slack q"
  "flows (put_flow q r f) = flows q"
  "inactive_flows (put_flow q r f) = inactive_flows q"
  "throttled_flows (put_flow q r f) = throttled_flows q"
  "stat_gc_flows (put_flow q r f) = stat_gc_flows q"
  "stat_internal_packets (put_flow q r f) = stat_internal_packets q"
  "stat_throttled (put_flow q r f) = stat_throttled q"
  "stat_ce_mark (put_flow q r f) = stat_ce_mark q"
  "stat_horizon_drops (put_flow q r f) = stat_horizon_drops q"
  "stat_horizon_caps (put_flow q r f) = stat_horizon_caps q"
  "stat_flows_plimit (put_flow q r f) = stat_flows_plimit q"
  "stat_pkts_too_long (put_flow q r f) = stat_pkts_too_long q"
  "stat_allocation_errors (put_flow q r f) = stat_allocation_errors q"
  "f1_sourceport (put_flow q r f) = f1_sourceport q"
  "f2_sourceport (put_flow q r f) = f2_sourceport q"
  "f1_destport (put_flow q r f) = f1_destport q"
  "f2_destport (put_flow q r f) = f2_destport q"
  "watchdog (put_flow q r f) = watchdog q"
  "pFlowid0 (put_flow q r f) = pFlowid0 q"
  "pFlowid1 (put_flow q r f) = pFlowid1 q"
  "ucounter (put_flow q r f) = ucounter q"
  "flipflag (put_flow q r f) = flipflag q"
  "sport (put_flow q r f) = sport q"
  "dport (put_flow q r f) = dport q"
  by (simp_all add: put_flow_def split: flow_ref.splits)

lemma get_flow_put_flow [simp]:
  "get_flow (put_flow q r f) x = (if x = r then f else get_flow q x)"
  by (simp add: get_flow_def put_flow_def split: flow_ref.splits)

lemma get_list_simps [simp]:
  "get_list q NEW_FLOWS = new_flows q"
  "get_list q OLD_FLOWS = old_flows q"
  "get_list q CO_FLOWS = co_flows q"
  by (simp_all add: get_list_def)

lemma set_list_fields [simp]:
  "sch_qlen (set_list q h xs) = sch_qlen q"
  "sch_limit (set_list q h xs) = sch_limit q"
  "sch_backlog (set_list q h xs) = sch_backlog q"
  "sch_drops (set_list q h xs) = sch_drops q"
  "bstats_bytes (set_list q h xs) = bstats_bytes q"
  "bstats_packets (set_list q h xs) = bstats_packets q"
  "delayed (set_list q h xs) = delayed q"
  "time_next_delayed_flow (set_list q h xs) = time_next_delayed_flow q"
  "ktime_cache (set_list q h xs) = ktime_cache q"
  "unthrottle_latency_ns (set_list q h xs) = unthrottle_latency_ns q"
  "fq_root_allocated (set_list q h xs) = fq_root_allocated q"
  "fq_root (set_list q h xs) = fq_root q"
  "quantum (set_list q h xs) = quantum q"
  "initial_quantum (set_list q h xs) = initial_quantum q"
  "flow_refill_delay (set_list q h xs) = flow_refill_delay q"
  "flow_plimit (set_list q h xs) = flow_plimit q"
  "flow_max_rate (set_list q h xs) = flow_max_rate q"
  "ce_threshold (set_list q h xs) = ce_threshold q"
  "horizon (set_list q h xs) = horizon q"
  "orphan_mask (set_list q h xs) = orphan_mask q"
  "low_rate_threshold (set_list q h xs) = low_rate_threshold q"
  "rate_enable (set_list q h xs) = rate_enable q"
  "fq_trees_log (set_list q h xs) = fq_trees_log q"
  "horizon_drop (set_list q h xs) = horizon_drop q"
  "timer_slack (set_list q h xs) = timer_slack q"
  "flows (set_list q h xs) = flows q"
  "inactive_flows (set_list q h xs) = inactive_flows q"
  "throttled_flows (set_list q h xs) = throttled_flows q"
  "stat_gc_flows (set_list q h xs) = stat_gc_flows q"
  "stat_internal_packets (set_list q h xs) = stat_internal_packets q"
  "stat_throttled (set_list q h xs) = stat_throttled q"
  "stat_ce_mark (set_list q h xs) = stat_ce_mark q"
  "stat_horizon_drops (set_list q h xs) = stat_horizon_drops q"
  "stat_horizon_caps (set_list q h xs) = stat_horizon_caps q"
  "stat_flows_plimit (set_list q h xs) = stat_flows_plimit q"
  "stat_pkts_too_long (set_list q h xs) = stat_pkts_too_long q"
  "stat_allocation_errors (set_list q h xs) = stat_allocation_errors q"
  "f1_sourceport (set_list q h xs) = f1_sourceport q"
  "f2_sourceport (set_list q h xs) = f2_sourceport q"
  "f1_destport (set_list q h xs) = f1_destport q"
  "f2_destport (set_list q h xs) = f2_destport q"
  "watchdog (set_list q h xs) = watchdog q"
  "pFlowid0 (set_list q h xs) = pFlowid0 q"
  "pFlowid1 (set_list q h xs) = pFlowid1 q"
  "ucounter (set_list q h xs) = ucounter q"
  "flipflag (set_list q h xs) = flipflag q"
  "sport (set_list q h xs) = sport q"
  "dport (set_list q h xs) = dport q"
  by (simp_all add: set_list_def split: list_id.splits)

lemma set_list_lists [simp]:
  "new_flows (set_list q h xs) = (if h = NEW_FLOWS then xs else new_flows q)"
  "old_flows (set_list q h xs) = (if h = OLD_FLOWS then xs else old_flows q)"
  "co_flows (set_list q h xs) = (if h = CO_FLOWS then xs else co_flows q)"
  "get_flow (set_list q h xs) r = get_flow q r"
  by (simp_all add: set_list_def split: list_id.splits)

lemma fq_flow_add_tail_fields [simp]:
  "sch_qlen (fq_flow_add_tail q h r) = sch_qlen q"
  "sch_limit (fq_flow_add_tail q h r) = sch_limit q"
  "sch_backlog (fq_flow_add_tail q h r) = sch_backlog q"
  "sch_drops (fq_flow_add_tail q h r) = sch_drops q"
  "bstats_bytes (fq_flow_add_tail q h r) = bstats_bytes q"
  "bstats_packets (fq_flow_add_tail q h r) = bstats_packets q"
  "delayed (fq_flow_add_tail q h r) = delayed q"
  "time_next_delayed_flow (fq_flow_add_tail q h r) = time_next_delayed_flow q"
  "ktime_cache (fq_flow_add_tail q h r) = ktime_cache q"
  "unthrottle_latency_ns (fq_flow_add_tail q h r) = unthrottle_latency_ns q"
  "fq_root_allocated (fq_flow_add_tail q h r) = fq_root_allocated q"
  "fq_root (fq_flow_add_tail q h r) = fq_root q"
  "quantum (fq_flow_add_tail q h r) = quantum q"
  "initial_quantum (fq_flow_add_tail q h r) = initial_quantum q"
  "flow_refill_delay (fq_flow_add_tail q h r) = flow_refill_delay q"
  "flow_plimit (fq_flow_add_tail q h r) = flow_plimit q"
  "flow_max_rate (fq_flow_add_tail q h r) = flow_max_rate q"
  "ce_threshold (fq_flow_add_tail q h r) = ce_threshold q"
  "horizon (fq_flow_add_tail q h r) = horizon q"
  "orphan_mask (fq_flow_add_tail q h r) = orphan_mask q"
  "low_rate_threshold (fq_flow_add_tail q h r) = low_rate_threshold q"
  "rate_enable (fq_flow_add_tail q h r) = rate_enable q"
  "fq_trees_log (fq_flow_add_tail q h r) = fq_trees_log q"
  "horizon_drop (fq_flow_add_tail q h r) = horizon_drop q"
  "timer_slack (fq_flow_add_tail q h r) = timer_slack q"
  "flows (fq_flow_add_tail q h r) = flows q"
  "inactive_flows (fq_flow_add_tail q h r) = inactive_flows q"
  "throttled_flows (fq_flow_add_tail q h r) = throttled_flows q"
  "stat_gc_flows (fq_flow_add_tail q h r) = stat_gc_flows q"
  "stat_internal_packets (fq_flow_add_tail q h r) = stat_internal_packets q"
  "stat_throttled (fq_flow_add_tail q h r) = stat_throttled q"
  "stat_ce_mark (fq_flow_add_tail q h r) = stat_ce_mark q"
  "stat_horizon_drops (fq_flow_add_tail q h r) = stat_horizon_drops q"
  "stat_horizon_caps (fq_flow_add_tail q h r) = stat_horizon_caps q"
  "stat_flows_plimit (fq_flow_add_tail q h r) = stat_flows_plimit q"
  "stat_pkts_too_long (fq_flow_add_tail q h r) = stat_pkts_too_long q"
  "stat_allocation_errors (fq_flow_add_tail q h r) = stat_allocation_errors q"
  "f1_sourceport (fq_flow_add_tail q h r) = f1_sourceport q"
  "f2_sourceport (fq_flow_add_tail q h r) = f2_sourceport q"
  "f1_destport (fq_flow_add_tail q h r) = f1_destport q"
  "f2_destport (fq_flow_add_tail q h r) = f2_destport q"
  "watchdog (fq_flow_add_tail q h r) = watchdog q"
  "pFlowid0 (fq_flow_add_tail q h r) = pFlowid0 q"
  "pFlowid1 (fq_flow_add_tail q h r) = pFlowid1 q"
  "ucounter (fq_flow_add_tail q h r) = ucounter q"
  "flipflag (fq_flow_add_tail q h r) = flipflag q"
  "sport (fq_flow_add_tail q h r) = sport q"
  "dport (fq_flow_add_tail q h r) = dport q"
  by (simp_all add: fq_flow_add_tail_def Let_def)

lemma fq_flow_add_tail_lists [simp]:
  "new_flows (fq_flow_add_tail q h r) = (if h = NEW_FLOWS then new_flows q @ [r] else new_flows q)"
  "old_flows (fq_flow_add_tail q h r) = (if h = OLD_FLOWS then old_flows q @ [r] else old_flows q)"
  "co_flows (fq_flow_add_tail q h r) = (if h = CO_FLOWS then co_flows q @ [r] else co_flows q)"
  by (cases h; simp add: fq_flow_add_tail_def Let_def)+

lemma get_flow_add_tail [simp]:
  "get_flow (fq_flow_add_tail q h r) x =
     (if x = r then (get_flow q r)\<lparr>next_throttled := False\<rparr> else get_flow q x)"
  by (simp add: fq_flow_add_tail_def Let_def)

section \<open>Order of the packets of one flow\<close>

lemma set_rb_insert_skb: "set (rb_insert_skb p xs) = insert p (set xs)"
  by (induction xs) auto

lemma sorted_rb_insert_skb:
  "sorted (map time_to_send xs) \<Longrightarrow> sorted (map time_to_send (rb_insert_skb p xs))"
  by (induction xs) (auto simp: set_rb_insert_skb)

lemma sorted_map_le_last:
  "sorted (map g xs) \<Longrightarrow> x \<in> set xs \<Longrightarrow> (g x :: 'a :: linorder) \<le> g (last xs)"
  by (induction xs) auto

lemma flow_sorted_add: "flow_sorted f \<Longrightarrow> flow_sorted (flow_queue_add f p)"
  by (auto simp: flow_sorted_def flow_queue_add_def sorted_rb_insert_skb sorted_append
      dest: sorted_map_le_last [where g = time_to_send])

lemma sorted_map_remove1:
  "sorted (map g xs) \<Longrightarrow> sorted (map (g :: 'b \<Rightarrow> 'a :: linorder) (remove1 x xs))"
  by (induction xs) (auto dest: notin_set_remove1)

lemma sorted_map_tl: "sorted (map g xs) \<Longrightarrow> sorted (map (g :: 'b \<Rightarrow> 'a :: linorder) (tl xs))"
  by (cases xs) auto

lemma flow_sorted_erase: "flow_sorted f \<Longrightarrow> flow_sorted (fq_erase_head f p)"
  by (auto simp: flow_sorted_def fq_erase_head_def sorted_map_remove1 sorted_map_tl)

lemma flow_pkts_erase: "flow_pkts (fq_erase_head f p) \<subseteq> flow_pkts f"
  using set_remove1_subset [of p "t_root f"]
  by (auto simp: flow_pkts_def fq_erase_head_def dest: list.set_sel(2))

lemma fq_peek_least:
  "flow_sorted f \<Longrightarrow> fq_peek f = Some p \<Longrightarrow> x \<in> flow_pkts f \<Longrightarrow>
   time_to_send p \<le> time_to_send x"
  by (fastforce simp: flow_sorted_def fq_peek_def flow_pkts_def split: list.splits if_splits)

lemma fq_peek_in: "fq_peek f = Some p \<Longrightarrow> p \<in> flow_pkts f"
  by (auto simp: fq_peek_def flow_pkts_def split: list.splits if_splits)

lemma successive_peeks_subset: "set (successive_peeks n f) \<subseteq> flow_pkts f"
proof (induction n arbitrary: f)
  case 0
  show ?case by simp
next
  case (Suc n)
  show ?case
  proof (cases "fq_peek f")
    case None
    then show ?thesis by simp
  next
    case (Some p)
    have "set (successive_peeks n (fq_erase_head f p)) \<subseteq> flow_pkts f"
      using Suc.IH [of "fq_erase_head f p"] flow_pkts_erase [of f p] by blast
    with Some fq_peek_in [OF Some] show ?thesis by simp
  qed
qed

lemma successive_peeks_sorted:
  "flow_sorted f \<Longrightarrow> sorted (map time_to_send (successive_peeks n f))"
proof (induction n arbitrary: f)
  case 0
  show ?case by simp
next
  case (Suc n)
  show ?case
  proof (cases "fq_peek f")
    case None
    then show ?thesis by simp
  next
    case (Some p)
    have later: "time_to_send p \<le> time_to_send x"
      if "x \<in> set (successive_peeks n (fq_erase_head f p))" for x
      using that successive_peeks_subset [of n "fq_erase_head f p"] flow_pkts_erase [of f p]
        fq_peek_least [OF Suc.prems Some] by blast
    have "sorted (map time_to_send (successive_peeks n (fq_erase_head f p)))"
      using Suc.IH [OF flow_sorted_erase [OF Suc.prems]] .
    with later Some show ?thesis by auto
  qed
qed

lemma flow_sorted_zero: "flow_sorted flow_zero"
  by (simp add: flow_sorted_def flow_zero_def)

lemma flow_sorted_run: "flow_sorted f \<Longrightarrow> flow_sorted (flow_run ops f)"
proof (induction ops f rule: flow_run.induct)
  case (1 f)
  then show ?case by simp
next
  case (2 skb ops f)
  then show ?case by (simp add: flow_sorted_add)
next
  case (3 ops f)
  then show ?case by (auto simp: flow_sorted_erase split: option.splits)
qed

lemma flow_queue_add_tail_iff:
  "(head (flow_queue_add f skb) = head f @ [skb] \<and> t_root (flow_queue_add f skb) = t_root f) =
   (head f = [] \<or> time_to_send (last (head f)) \<le> time_to_send skb)"
  by (auto simp: flow_queue_add_def)

lemma flow_queue_add_tree:
  "\<not> (head f = [] \<or> time_to_send (last (head f)) \<le> time_to_send skb) \<Longrightarrow>
   head (flow_queue_add f skb) = head f \<and>
   t_root (flow_queue_add f skb) = rb_insert_skb skb (t_root f)"
  by (auto simp: flow_queue_add_def)

text \<open>
  Claim C9, as stated: the \<open>time_to_send\<close> values of successive peeks on a flow never
  decrease, also when enqueues come between the peeks. This fails: on a new flow, a packet due
  at 100 is queued and peeked, then a packet due at 50 is queued (it goes to the tree), and
  the next peek returns the packet due at 50.
\<close>

theorem C9_peek_decreases_after_enqueue:
  "fq_peek (flow_run [Enq (pkt_at 100)] flow_zero) = Some (pkt_at 100) \<and>
   fq_peek (flow_run [Enq (pkt_at 100), Enq (pkt_at 50)] flow_zero) = Some (pkt_at 50) \<and>
   time_to_send (pkt_at 50) < time_to_send (pkt_at 100)"
  by (simp add: flow_zero_def flow_queue_add_def fq_peek_def pkt_at_def)

text \<open>
  Claim C9, amended: for a flow with any history of enqueues and dequeues, (1) successive
  peeks, each followed by the removal of the packet peeked and with no enqueue in between,
  return non-decreasing \<open>time_to_send\<close> values; (2) a peek returns a packet that is due no
  later than any packet queued in the FIFO or in the tree; (3) \<open>flow_queue_add\<close> appends the
  packet to the FIFO exactly when the FIFO is empty or the packet's \<open>time_to_send\<close> is at
  least the tail's, and otherwise inserts it into the tree, which stays ordered by
  \<open>time_to_send\<close>.
\<close>

theorem C9_peek_order:
  fixes ops :: "flow_op list" and n :: nat and skb :: sk_buff
  defines "f \<equiv> flow_run ops flow_zero"
  shows "sorted (map time_to_send (successive_peeks n f)) \<and>
    (\<forall>p x. fq_peek f = Some p \<and> x \<in> flow_pkts f \<longrightarrow> time_to_send p \<le> time_to_send x) \<and>
    ((head (flow_queue_add f skb) = head f @ [skb] \<and> t_root (flow_queue_add f skb) = t_root f)
       = (head f = [] \<or> time_to_send (last (head f)) \<le> time_to_send skb)) \<and>
    (\<not> (head f = [] \<or> time_to_send (last (head f)) \<le> time_to_send skb) \<longrightarrow>
       head (flow_queue_add f skb) = head f \<and>
       t_root (flow_queue_add f skb) = rb_insert_skb skb (t_root f) \<and>
       sorted (map time_to_send (t_root (flow_queue_add f skb))))"
proof -
  have srt: "flow_sorted f"
    unfolding f_def by (rule flow_sorted_run [OF flow_sorted_zero])
  have "flow_sorted (flow_queue_add f skb)"
    by (rule flow_sorted_add [OF srt])
  then have "sorted (map time_to_send (t_root (flow_queue_add f skb)))"
    by (simp add: flow_sorted_def)
  then show ?thesis
    using successive_peeks_sorted [OF srt, of n] fq_peek_least [OF srt]
      flow_queue_add_tail_iff [of f skb] flow_queue_add_tree [of f skb]
    by blast
qed

theorem C9_peek_order_witness:
  "fq_peek (flow_run [Enq (pkt_at 100), Enq (pkt_at 50)] flow_zero) = Some (pkt_at 50) \<and>
   pkt_at 100 \<in> flow_pkts (flow_run [Enq (pkt_at 100), Enq (pkt_at 50)] flow_zero) \<and>
   time_to_send (pkt_at 50) \<le> time_to_send (pkt_at 100) \<and>
   \<not> (head (flow_run [Enq (pkt_at 100)] flow_zero) = [] \<or>
      time_to_send (last (head (flow_run [Enq (pkt_at 100)] flow_zero)))
        \<le> time_to_send (pkt_at 50)) \<and>
   t_root (flow_queue_add (flow_run [Enq (pkt_at 100)] flow_zero) (pkt_at 50)) = [pkt_at 50] \<and>
   sorted (map time_to_send (successive_peeks 2
      (flow_run [Enq (pkt_at 100), Enq (pkt_at 50)] flow_zero)))"
  using C9_peek_order [of 2 "[Enq (pkt_at 100), Enq (pkt_at 50)]" "pkt_at 70"]
    C9_peek_order [of 2 "[Enq (pkt_at 100)]" "pkt_at 50"]
  by (simp add: flow_zero_def flow_queue_add_def fq_peek_def pkt_at_def flow_pkts_def)

section \<open>The tree of throttled flows and its cached minimum\<close>

lemma list_min_Nil [simp]: "list_min key [] = - 1"
  by (simp add: list_min_def)

lemma list_min_Cons [simp]: "list_min key (x # xs) = min (key x) (list_min key xs)"
  by (simp add: list_min_def)

lemma list_min_rb_insert_flow:
  "list_min key (rb_insert_flow key r xs) = min (key r) (list_min key xs)"
  by (induction xs) (auto simp: min.left_commute)

lemma list_min_remove1: "list_min key xs \<le> list_min key (remove1 r xs)"
  by (induction xs) (auto simp: min.coboundedI2 min.coboundedI1)

lemma list_min_sorted: "sorted (map key (x # xs)) \<Longrightarrow> list_min key (x # xs) = key x"
  by (induction xs arbitrary: x) (auto simp: min_def)

lemma unset_throttled_fields [simp]:
  "delayed (fq_flow_unset_throttled q r) = remove1 r (delayed q)"
  "time_next_delayed_flow (fq_flow_unset_throttled q r) = time_next_delayed_flow q"
  "old_flows (fq_flow_unset_throttled q r) = old_flows q @ [r]"
  "new_flows (fq_flow_unset_throttled q r) = new_flows q"
  "co_flows (fq_flow_unset_throttled q r) = co_flows q"
  "get_flow (fq_flow_unset_throttled q r) x =
     (if x = r then (get_flow q r)\<lparr>next_throttled := False\<rparr> else get_flow q x)"
  by (simp_all add: fq_flow_unset_throttled_def)

lemma tnp_unset_throttled [simp]:
  "time_next_packet (get_flow (fq_flow_unset_throttled q r) x) = time_next_packet (get_flow q x)"
  by simp

lemma delayed_min_unset: "delayed_min q \<le> delayed_min (fq_flow_unset_throttled q r)"
  by (simp add: delayed_min_def list_min_remove1 del: unset_throttled_fields(6))

lemma set_throttled_fields:
  "delayed (fq_flow_set_throttled q r) =
     rb_insert_flow (\<lambda>x. time_next_packet (get_flow q x)) r (delayed q)"
  "time_next_delayed_flow (fq_flow_set_throttled q r) =
     min (time_next_delayed_flow q) (time_next_packet (get_flow q r))"
  "get_flow (fq_flow_set_throttled q r) x =
     (if x = r then (get_flow q r)\<lparr>next_throttled := True\<rparr> else get_flow q x)"
  by (auto simp add: fq_flow_set_throttled_def Let_def min_def)

lemma tnp_set_throttled [simp]:
  "time_next_packet (get_flow (fq_flow_set_throttled q r) x) = time_next_packet (get_flow q x)"
  by (simp add: set_throttled_fields)

lemma delayed_min_set_throttled:
  "delayed_min (fq_flow_set_throttled q r) = min (time_next_packet (get_flow q r)) (delayed_min q)"
  by (simp add: delayed_min_def set_throttled_fields(1) list_min_rb_insert_flow)

lemma set_throttled_exact:
  "time_next_delayed_flow q = delayed_min q \<Longrightarrow>
   time_next_delayed_flow (fq_flow_set_throttled q r) = delayed_min (fq_flow_set_throttled q r)"
  by (simp add: delayed_min_set_throttled set_throttled_fields(2) min.commute)

lemma delayed_sorted_unset: "delayed_sorted q \<Longrightarrow> delayed_sorted (fq_flow_unset_throttled q r)"
  by (simp add: delayed_sorted_def sorted_map_remove1 del: unset_throttled_fields(6))

lemma check_loop_exact:
  "delayed_sorted q \<Longrightarrow> time_next_delayed_flow q = - 1 \<Longrightarrow>
   time_next_delayed_flow (fq_check_throttled_loop now q) = delayed_min (fq_check_throttled_loop now q)"
proof (induction now q rule: fq_check_throttled_loop.induct)
  case (1 now q)
  show ?case
  proof (cases "delayed q")
    case Nil
    with 1 show ?thesis
      by (subst (1 2) fq_check_throttled_loop.simps) (simp add: delayed_min_def)
  next
    case (Cons r rest)
    show ?thesis
    proof (cases "time_next_packet (get_flow q r) > now")
      case True
      have "delayed_min q = time_next_packet (get_flow q r)"
        using "1.prems"(1) Cons
        by (simp add: delayed_min_def delayed_sorted_def list_min_sorted del: list_min_Cons)
      moreover have "delayed_min (q\<lparr>time_next_delayed_flow := time_next_packet (get_flow q r)\<rparr>) =
          delayed_min q"
        by (simp add: delayed_min_def)
      ultimately show ?thesis using True Cons
        by (subst (1 2) fq_check_throttled_loop.simps) simp
    next
      case False
      have "time_next_delayed_flow (fq_check_throttled_loop now (fq_flow_unset_throttled q r)) =
            delayed_min (fq_check_throttled_loop now (fq_flow_unset_throttled q r))"
        using "1.IH" [OF Cons False] "1.prems" by (simp add: delayed_sorted_unset)
      then show ?thesis using False Cons
        by (subst (1 2) fq_check_throttled_loop.simps) simp
    qed
  qed
qed

lemma check_throttled_exact:
  "delayed_sorted q \<Longrightarrow> time_next_delayed_flow q \<le> now \<Longrightarrow>
   time_next_delayed_flow (fq_check_throttled q now) = delayed_min (fq_check_throttled q now)"
  by (auto simp add: fq_check_throttled_def Let_def check_loop_exact delayed_sorted_def)

lemma check_throttled_early: "time_next_delayed_flow q > now \<Longrightarrow> fq_check_throttled q now = q"
  by (simp add: fq_check_throttled_def)

lemma fq_gc_fields [simp]:
  "delayed (fq_gc e q k) = delayed q"
  "time_next_delayed_flow (fq_gc e q k) = time_next_delayed_flow q"
  "old_flows (fq_gc e q k) = old_flows q"
  "new_flows (fq_gc e q k) = new_flows q"
  "co_flows (fq_gc e q k) = co_flows q"
  "initial_quantum (fq_gc e q k) = initial_quantum q"
  "rate_enable (fq_gc e q k) = rate_enable q"
  "get_flow (fq_gc e q k) r = get_flow q r"
  by (simp_all add: fq_gc_def Let_def)

lemma tndf_classify:
  "time_next_delayed_flow (snd (snd (fq_classify e skb q))) = time_next_delayed_flow q"
  by (simp add: fq_classify_def Let_def split: prod.splits)

lemma tndf_enqueue_finish:
  "time_next_delayed_flow (snd (fq_enqueue_finish r skb q)) = time_next_delayed_flow q"
  by (simp add: fq_enqueue_finish_def Let_def)

lemma tndf_enqueue_flow:
  "time_next_delayed_flow (snd (fq_enqueue_flow e r skb q)) = time_next_delayed_flow q"
  by (simp add: fq_enqueue_flow_def Let_def tndf_enqueue_finish qdisc_drop_def split: option.splits)

lemma tndf_enqueue_tstamp:
  "time_next_delayed_flow (snd (fq_enqueue_tstamp e skb q)) = time_next_delayed_flow q"
  by (simp add: fq_enqueue_tstamp_def Let_def)

lemma tndf_enqueue:
  "time_next_delayed_flow (snd (fq_enqueue e skb q)) = time_next_delayed_flow q"
proof -
  have a: "time_next_delayed_flow q1 = time_next_delayed_flow q"
    if "fq_enqueue_tstamp e skb q = (x, q1)" for x q1
    using tndf_enqueue_tstamp [of e skb q] that by simp
  have b: "time_next_delayed_flow q2 = time_next_delayed_flow q1"
    if "fq_classify e skb1 q1 = (r, skb2, q2)" for r skb1 skb2 q1 q2
    using tndf_classify [of e skb1 q1] that by simp
  show ?thesis
    by (auto simp: fq_enqueue_def qdisc_drop_def tndf_enqueue_flow a b split: prod.splits option.splits)
qed




section \<open>Classification\<close>

lemma flow_at_get_flow: "flow_at q k = get_flow q (Flow k)"
  by (simp add: get_flow_def)

lemma gc_collect_keeps: "k \<notin> set acc \<Longrightarrow> k \<notin> set (gc_collect e q k path acc)"
  by (induction path arbitrary: acc) auto

lemma fq_gc_keeps_key: "k \<in> set (fq_root q) \<Longrightarrow> k \<in> set (fq_root (fq_gc e q k))"
  using gc_collect_keeps [of k "[]" e q]
  by (simp add: fq_gc_def Let_def)

lemma classify_key_real:
  "sk skb = Some s \<Longrightarrow> \<not> sk_listener s \<Longrightarrow> sk_state s \<noteq> TCP_CLOSE \<Longrightarrow>
   classify_key skb q = (sk_addr s, skb)"
  by (simp add: classify_key_def)




section \<open>Learning the co-flow identifiers\<close>

text \<open>
  Claim C1: \<open>pFlowid[0]\<close> and \<open>pFlowid[1]\<close> are set to the flow's \<open>socket_hash\<close>
  exactly when the packet's source port is the configured \<open>f1_sourceport\<close> or
  \<open>f2_sourceport\<close>. The code compares \<open>sport\<close> with the literals 46730 and 46731
  instead. With \<open>f1_sourceport\<close> configured as 5000, a packet sent from port 5000 into a
  detached flow leaves \<open>pFlowid[0]\<close> at 0, and a packet sent from port 46730 sets it.
\<close>

theorem C1_configured_port_ignored:
  "f1_sourceport c1_state = 5000 \<and> f2_sourceport c1_state = 5001 \<and> pFlowid0 c1_state = 0 \<and>
   (case fq_enqueue env0 (mk_skb (mk_sock 4096 11 5000) 101 0) c1_state of
      (res, q) \<Rightarrow> res = NET_XMIT_SUCCESS \<and> new_flows q = [Flow 4096] \<and> sport q = 5000 \<and>
        socket_hash (flow_at q 4096) = 101 \<and> pFlowid0 q = 0) \<and>
   (case fq_enqueue env0 (mk_skb sock_A 101 0) c1_state of
      (res, q) \<Rightarrow> res = NET_XMIT_SUCCESS \<and> new_flows q = [Flow 4096] \<and> sport q = 46730 \<and>
        f1_sourceport q = 5000 \<and> socket_hash (flow_at q 4096) = 101 \<and> pFlowid0 q = 101)"
  by code_simp

lemma unset_throttled_others [simp]:
  "sch_qlen (fq_flow_unset_throttled q r) = sch_qlen q"
  "sch_limit (fq_flow_unset_throttled q r) = sch_limit q"
  "sch_backlog (fq_flow_unset_throttled q r) = sch_backlog q"
  "sch_drops (fq_flow_unset_throttled q r) = sch_drops q"
  "bstats_bytes (fq_flow_unset_throttled q r) = bstats_bytes q"
  "bstats_packets (fq_flow_unset_throttled q r) = bstats_packets q"
  "ktime_cache (fq_flow_unset_throttled q r) = ktime_cache q"
  "unthrottle_latency_ns (fq_flow_unset_throttled q r) = unthrottle_latency_ns q"
  "fq_root_allocated (fq_flow_unset_throttled q r) = fq_root_allocated q"
  "fq_root (fq_flow_unset_throttled q r) = fq_root q"
  "quantum (fq_flow_unset_throttled q r) = quantum q"
  "initial_quantum (fq_flow_unset_throttled q r) = initial_quantum q"
  "flow_refill_delay (fq_flow_unset_throttled q r) = flow_refill_delay q"
  "flow_plimit (fq_flow_unset_throttled q r) = flow_plimit q"
  "flow_max_rate (fq_flow_unset_throttled q r) = flow_max_rate q"
  "ce_threshold (fq_flow_unset_throttled q r) = ce_threshold q"
  "horizon (fq_flow_unset_throttled q r) = horizon q"
  "orphan_mask (fq_flow_unset_throttled q r) = orphan_mask q"
  "low_rate_threshold (fq_flow_unset_throttled q r) = low_rate_threshold q"
  "rate_enable (fq_flow_unset_throttled q r) = rate_enable q"
  "fq_trees_log (fq_flow_unset_throttled q r) = fq_trees_log q"
  "horizon_drop (fq_flow_unset_throttled q r) = horizon_drop q"
  "timer_slack (fq_flow_unset_throttled q r) = timer_slack q"
  "flows (fq_flow_unset_throttled q r) = flows q"
  "inactive_flows (fq_flow_unset_throttled q r) = inactive_flows q"
  "stat_gc_flows (fq_flow_unset_throttled q r) = stat_gc_flows q"
  "stat_internal_packets (fq_flow_unset_throttled q r) = stat_internal_packets q"
  "stat_throttled (fq_flow_unset_throttled q r) = stat_throttled q"
  "stat_ce_mark (fq_flow_unset_throttled q r) = stat_ce_mark q"
  "stat_horizon_drops (fq_flow_unset_throttled q r) = stat_horizon_drops q"
  "stat_horizon_caps (fq_flow_unset_throttled q r) = stat_horizon_caps q"
  "stat_flows_plimit (fq_flow_unset_throttled q r) = stat_flows_plimit q"
  "stat_pkts_too_long (fq_flow_unset_throttled q r) = stat_pkts_too_long q"
  "stat_allocation_errors (fq_flow_unset_throttled q r) = stat_allocation_errors q"
  "f1_sourceport (fq_flow_unset_throttled q r) = f1_sourceport q"
  "f2_sourceport (fq_flow_unset_throttled q r) = f2_sourceport q"
  "f1_destport (fq_flow_unset_throttled q r) = f1_destport q"
  "f2_destport (fq_flow_unset_throttled q r) = f2_destport q"
  "watchdog (fq_flow_unset_throttled q r) = watchdog q"
  "pFlowid0 (fq_flow_unset_throttled q r) = pFlowid0 q"
  "pFlowid1 (fq_flow_unset_throttled q r) = pFlowid1 q"
  "ucounter (fq_flow_unset_throttled q r) = ucounter q"
  "flipflag (fq_flow_unset_throttled q r) = flipflag q"
  "sport (fq_flow_unset_throttled q r) = sport q"
  "dport (fq_flow_unset_throttled q r) = dport q"
  by (simp_all add: fq_flow_unset_throttled_def)

lemma set_throttled_others [simp]:
  "sch_qlen (fq_flow_set_throttled q r) = sch_qlen q"
  "sch_limit (fq_flow_set_throttled q r) = sch_limit q"
  "sch_backlog (fq_flow_set_throttled q r) = sch_backlog q"
  "sch_drops (fq_flow_set_throttled q r) = sch_drops q"
  "bstats_bytes (fq_flow_set_throttled q r) = bstats_bytes q"
  "bstats_packets (fq_flow_set_throttled q r) = bstats_packets q"
  "new_flows (fq_flow_set_throttled q r) = new_flows q"
  "old_flows (fq_flow_set_throttled q r) = old_flows q"
  "co_flows (fq_flow_set_throttled q r) = co_flows q"
  "ktime_cache (fq_flow_set_throttled q r) = ktime_cache q"
  "unthrottle_latency_ns (fq_flow_set_throttled q r) = unthrottle_latency_ns q"
  "fq_root_allocated (fq_flow_set_throttled q r) = fq_root_allocated q"
  "fq_root (fq_flow_set_throttled q r) = fq_root q"
  "quantum (fq_flow_set_throttled q r) = quantum q"
  "initial_quantum (fq_flow_set_throttled q r) = initial_quantum q"
  "flow_refill_delay (fq_flow_set_throttled q r) = flow_refill_delay q"
  "flow_plimit (fq_flow_set_throttled q r) = flow_plimit q"
  "flow_max_rate (fq_flow_set_throttled q r) = flow_max_rate q"
  "ce_threshold (fq_flow_set_throttled q r) = ce_threshold q"
  "horizon (fq_flow_set_throttled q r) = horizon q"
  "orphan_mask (fq_flow_set_throttled q r) = orphan_mask q"
  "low_rate_threshold (fq_flow_set_throttled q r) = low_rate_threshold q"
  "rate_enable (fq_flow_set_throttled q r) = rate_enable q"
  "fq_trees_log (fq_flow_set_throttled q r) = fq_trees_log q"
  "horizon_drop (fq_flow_set_throttled q r) = horizon_drop q"
  "timer_slack (fq_flow_set_throttled q r) = timer_slack q"
  "flows (fq_flow_set_throttled q r) = flows q"
  "inactive_flows (fq_flow_set_throttled q r) = inactive_flows q"
  "stat_gc_flows (fq_flow_set_throttled q r) = stat_gc_flows q"
  "stat_internal_packets (fq_flow_set_throttled q r) = stat_internal_packets q"
  "stat_ce_mark (fq_flow_set_throttled q r) = stat_ce_mark q"
  "stat_horizon_drops (fq_flow_set_throttled q r) = stat_horizon_drops q"
  "stat_horizon_caps (fq_flow_set_throttled q r) = stat_horizon_caps q"
  "stat_flows_plimit (fq_flow_set_throttled q r) = stat_flows_plimit q"
  "stat_pkts_too_long (fq_flow_set_throttled q r) = stat_pkts_too_long q"
  "stat_allocation_errors (fq_flow_set_throttled q r) = stat_allocation_errors q"
  "f1_sourceport (fq_flow_set_throttled q r) = f1_sourceport q"
  "f2_sourceport (fq_flow_set_throttled q r) = f2_sourceport q"
  "f1_destport (fq_flow_set_throttled q r) = f1_destport q"
  "f2_destport (fq_flow_set_throttled q r) = f2_destport q"
  "watchdog (fq_flow_set_throttled q r) = watchdog q"
  "pFlowid0 (fq_flow_set_throttled q r) = pFlowid0 q"
  "pFlowid1 (fq_flow_set_throttled q r) = pFlowid1 q"
  "ucounter (fq_flow_set_throttled q r) = ucounter q"
  "flipflag (fq_flow_set_throttled q r) = flipflag q"
  "sport (fq_flow_set_throttled q r) = sport q"
  "dport (fq_flow_set_throttled q r) = dport q"
  by (simp_all add: fq_flow_set_throttled_def Let_def)

lemma fq_gc_others [simp]:
  "sch_qlen (fq_gc e q k) = sch_qlen q"
  "sch_limit (fq_gc e q k) = sch_limit q"
  "sch_backlog (fq_gc e q k) = sch_backlog q"
  "sch_drops (fq_gc e q k) = sch_drops q"
  "bstats_bytes (fq_gc e q k) = bstats_bytes q"
  "bstats_packets (fq_gc e q k) = bstats_packets q"
  "ktime_cache (fq_gc e q k) = ktime_cache q"
  "unthrottle_latency_ns (fq_gc e q k) = unthrottle_latency_ns q"
  "fq_root_allocated (fq_gc e q k) = fq_root_allocated q"
  "quantum (fq_gc e q k) = quantum q"
  "flow_refill_delay (fq_gc e q k) = flow_refill_delay q"
  "flow_plimit (fq_gc e q k) = flow_plimit q"
  "flow_max_rate (fq_gc e q k) = flow_max_rate q"
  "ce_threshold (fq_gc e q k) = ce_threshold q"
  "horizon (fq_gc e q k) = horizon q"
  "orphan_mask (fq_gc e q k) = orphan_mask q"
  "low_rate_threshold (fq_gc e q k) = low_rate_threshold q"
  "fq_trees_log (fq_gc e q k) = fq_trees_log q"
  "horizon_drop (fq_gc e q k) = horizon_drop q"
  "timer_slack (fq_gc e q k) = timer_slack q"
  "throttled_flows (fq_gc e q k) = throttled_flows q"
  "stat_internal_packets (fq_gc e q k) = stat_internal_packets q"
  "stat_throttled (fq_gc e q k) = stat_throttled q"
  "stat_ce_mark (fq_gc e q k) = stat_ce_mark q"
  "stat_horizon_drops (fq_gc e q k) = stat_horizon_drops q"
  "stat_horizon_caps (fq_gc e q k) = stat_horizon_caps q"
  "stat_flows_plimit (fq_gc e q k) = stat_flows_plimit q"
  "stat_pkts_too_long (fq_gc e q k) = stat_pkts_too_long q"
  "stat_allocation_errors (fq_gc e q k) = stat_allocation_errors q"
  "f1_sourceport (fq_gc e q k) = f1_sourceport q"
  "f2_sourceport (fq_gc e q k) = f2_sourceport q"
  "f1_destport (fq_gc e q k) = f1_destport q"
  "f2_destport (fq_gc e q k) = f2_destport q"
  "watchdog (fq_gc e q k) = watchdog q"
  "pFlowid0 (fq_gc e q k) = pFlowid0 q"
  "pFlowid1 (fq_gc e q k) = pFlowid1 q"
  "ucounter (fq_gc e q k) = ucounter q"
  "flipflag (fq_gc e q k) = flipflag q"
  "sport (fq_gc e q k) = sport q"
  "dport (fq_gc e q k) = dport q"
  by (simp_all add: fq_gc_def Let_def)

section \<open>Enqueue\<close>

lemma enqueue_tstamp_fields [simp]:
  "new_flows (snd (fq_enqueue_tstamp e skb q)) = new_flows q"
  "co_flows (snd (fq_enqueue_tstamp e skb q)) = co_flows q"
  "sch_drops (snd (fq_enqueue_tstamp e skb q)) = sch_drops q"
  by (simp_all add: fq_enqueue_tstamp_def Let_def)

lemma classify_fields [simp]:
  "new_flows (snd (snd (fq_classify e skb q))) = new_flows q"
  "co_flows (snd (snd (fq_classify e skb q))) = co_flows q"
  "stat_horizon_caps (snd (snd (fq_classify e skb q))) = stat_horizon_caps q"
  "flow_plimit (snd (snd (fq_classify e skb q))) = flow_plimit q"
  by (simp_all add: fq_classify_def Let_def case_prod_beta)

lemma classify_key_skb [simp]:
  "tstamp (snd (classify_key skb q)) = tstamp skb"
  "time_to_send (snd (classify_key skb q)) = time_to_send skb"
  by (simp_all add: classify_key_def split: option.splits)

lemma set_pacing_fq_skb [simp]:
  "tstamp (set_pacing_fq q skb) = tstamp skb"
  "time_to_send (set_pacing_fq q skb) = time_to_send skb"
  by (simp_all add: set_pacing_fq_def)

lemma classify_skb [simp]:
  "tstamp (fst (snd (fq_classify e skb q))) = tstamp skb"
  "time_to_send (fst (snd (fq_classify e skb q))) = time_to_send skb"
  by (simp_all add: fq_classify_def Let_def case_prod_beta)

lemma flow_pkts_add: "flow_pkts (flow_queue_add f skb) = insert skb (flow_pkts f)"
  by (auto simp: flow_pkts_def flow_queue_add_def set_rb_insert_skb)

lemma enqueue_finish_facts [simp]:
  "fst (fq_enqueue_finish r skb q) = NET_XMIT_SUCCESS"
  "new_flows (snd (fq_enqueue_finish r skb q)) = new_flows q"
  "co_flows (snd (fq_enqueue_finish r skb q)) = co_flows q"
  "stat_horizon_caps (snd (fq_enqueue_finish r skb q)) = stat_horizon_caps q"
  "skb \<in> flow_pkts (get_flow (snd (fq_enqueue_finish r skb q)) r)"
  by (simp_all add: fq_enqueue_finish_def Let_def flow_pkts_add)

lemma is_detached_qlen [simp]:
  "fq_flow_is_detached (f\<lparr>qlen := n\<rparr>) = fq_flow_is_detached f"
  by (simp add: fq_flow_is_detached_def)

lemma enqueue_flow_success:
  "(fst (fq_enqueue_flow e r skb q) = NET_XMIT_SUCCESS) =
   (\<not> (flow_plimit q \<le> qlen (get_flow q r) \<and> r \<noteq> Internal) \<and>
    \<not> (fq_flow_is_detached (get_flow q r) \<and> sk skb = None))"
  by (simp add: fq_enqueue_flow_def Let_def split: option.splits)

lemma enqueue_flow_fields [simp]:
  "co_flows (snd (fq_enqueue_flow e r skb q)) = co_flows q"
  "stat_horizon_caps (snd (fq_enqueue_flow e r skb q)) = stat_horizon_caps q"
  by (simp_all add: fq_enqueue_flow_def Let_def qdisc_drop_def split: option.splits)

lemma enqueue_flow_new_flows:
  "fst (fq_enqueue_flow e r skb q) = NET_XMIT_SUCCESS \<Longrightarrow>
   new_flows (snd (fq_enqueue_flow e r skb q)) =
     (if fq_flow_is_detached (get_flow q r) then new_flows q @ [r] else new_flows q)"
  by (auto simp: fq_enqueue_flow_def Let_def split: option.splits if_splits)

lemma enqueue_flow_queued:
  "fst (fq_enqueue_flow e r skb q) = NET_XMIT_SUCCESS \<Longrightarrow>
   skb \<in> flow_pkts (get_flow (snd (fq_enqueue_flow e r skb q)) r)"
  by (auto simp: fq_enqueue_flow_def Let_def split: option.splits if_splits)

lemma co_flows_enqueue: "co_flows (snd (fq_enqueue e skb q)) = co_flows q"
proof -
  have a: "co_flows q1 = co_flows q" if "fq_enqueue_tstamp e skb q = (x, q1)" for x q1
    using enqueue_tstamp_fields(2) [of e skb q] that by simp
  have b: "co_flows q2 = co_flows q1" if "fq_classify e skb1 q1 = (r, skb2, q2)"
    for r skb1 skb2 q1 q2
    using classify_fields(2) [of e skb1 q1] that by simp
  show ?thesis
    by (auto simp: fq_enqueue_def qdisc_drop_def a b split: prod.splits option.splits)
qed

text \<open>
  Claim C5, as stated: a detached flow whose \<open>socket_hash\<close> matches a co-flow identifier
  is pushed to \<open>co_flows\<close> by enqueue. This fails: in \<open>c5_state\<close> \<open>pFlowid[0]\<close> is
  101; the first packet of another socket with \<open>sk_hash\<close> 101 and packet hash 101, sent
  from port 46730, is classified to a new, detached flow whose \<open>socket_hash\<close> is 101 before
  and after the enqueue, and the flow is appended to \<open>new_flows\<close> while \<open>co_flows\<close> stays
  empty.
\<close>

theorem C5_co_flow_pushed_to_new_flows:
  "pFlowid0 c5_state = 101 \<and> new_flows c5_state = [Flow 4096] \<and> co_flows c5_state = [] \<and>
   (case fq_enqueue_tstamp env0 (mk_skb (mk_sock 16384 101 46730) 101 0) c5_state of
      (None, q1) \<Rightarrow> False
    | (Some skb1, q1) \<Rightarrow>
        (case fq_classify env0 skb1 q1 of
           (r, skb2, q2) \<Rightarrow> r = Flow 16384 \<and> fq_flow_is_detached (get_flow q2 r) \<and>
             socket_hash (get_flow q2 r) = pFlowid0 q2)) \<and>
   (case fq_enqueue env0 (mk_skb (mk_sock 16384 101 46730) 101 0) c5_state of
      (res, q) \<Rightarrow> res = NET_XMIT_SUCCESS \<and> socket_hash (get_flow q (Flow 16384)) = pFlowid0 q \<and>
        new_flows q = [Flow 4096, Flow 16384] \<and> co_flows q = [])"
  by code_simp

text \<open>
  Claim C5, amended: no enqueue changes \<open>co_flows\<close>; a successful enqueue appends the flow
  the packet is classified to, when that flow is detached, to \<open>new_flows\<close>, whatever its
  \<open>socket_hash\<close>, and leaves \<open>new_flows\<close> unchanged when the flow is not detached. (Flows reach
  \<open>co_flows\<close> only by promotion in dequeue.)
\<close>

theorem C5_detached_flow_to_new_flows:
  "co_flows (snd (fq_enqueue e skb q)) = co_flows q \<and>
   (fst (fq_enqueue e skb q) = NET_XMIT_SUCCESS \<longrightarrow>
      (case fq_enqueue_tstamp e skb q of
         (None, q1) \<Rightarrow> False
       | (Some skb1, q1) \<Rightarrow>
           (case fq_classify e skb1 q1 of
              (r, skb2, q2) \<Rightarrow>
                new_flows (snd (fq_enqueue e skb q)) =
                  (if fq_flow_is_detached (get_flow q2 r) then new_flows q @ [r]
                   else new_flows q))))"
proof -
  have a: "new_flows q1 = new_flows q" if "fq_enqueue_tstamp e skb q = (x, q1)" for x q1
    using enqueue_tstamp_fields(1) [of e skb q] that by simp
  have b: "new_flows q2 = new_flows q1" if "fq_classify e skb1 q1 = (r, skb2, q2)"
    for r skb1 skb2 q1 q2
    using classify_fields(1) [of e skb1 q1] that by simp
  have "fst (fq_enqueue e skb q) = NET_XMIT_SUCCESS \<longrightarrow>
      (case fq_enqueue_tstamp e skb q of
         (None, q1) \<Rightarrow> False
       | (Some skb1, q1) \<Rightarrow>
           (case fq_classify e skb1 q1 of
              (r, skb2, q2) \<Rightarrow>
                new_flows (snd (fq_enqueue e skb q)) =
                  (if fq_flow_is_detached (get_flow q2 r) then new_flows q @ [r]
                   else new_flows q)))"
    by (auto simp: fq_enqueue_def a b enqueue_flow_new_flows split: prod.splits option.splits)
  then show ?thesis
    using co_flows_enqueue [of e skb q] by simp
qed

lemma enqueue_beyond_horizon_drop:
  assumes "tstamp skb \<noteq> 0" and "sch_qlen q < sch_limit q"
    and "fq_packet_beyond_horizon skb q"
    and "fq_packet_beyond_horizon skb (q\<lparr>ktime_cache := ktime_ns e\<rparr>)"
    and "horizon_drop q \<noteq> 0"
  shows "fq_enqueue e skb q =
     (NET_XMIT_DROP, q\<lparr>ktime_cache := ktime_ns e,
        stat_horizon_drops := stat_horizon_drops q + 1, sch_drops := sch_drops q + 1\<rparr>)"
proof -
  have "\<not> sch_limit q \<le> sch_qlen q"
    using assms(2) by simp
  then show ?thesis
    using assms by (simp add: fq_enqueue_def fq_enqueue_tstamp_def Let_def qdisc_drop_def)
qed

lemma enqueue_beyond_horizon_cap:
  assumes "tstamp skb \<noteq> 0" and "sch_qlen q < sch_limit q"
    and "fq_packet_beyond_horizon skb q"
    and "fq_packet_beyond_horizon skb (q\<lparr>ktime_cache := ktime_ns e\<rparr>)"
    and "horizon_drop q = 0"
  shows "fq_enqueue e skb q =
     (case fq_classify e
             (skb\<lparr>tstamp := ktime_ns e + horizon q, time_to_send := ktime_ns e + horizon q\<rparr>)
             (q\<lparr>ktime_cache := ktime_ns e, stat_horizon_caps := stat_horizon_caps q + 1\<rparr>) of
        (r, skb2, q2) \<Rightarrow> fq_enqueue_flow e r skb2 q2)"
proof -
  have "\<not> sch_limit q \<le> sch_qlen q"
    using assms(2) by simp
  then show ?thesis
    using assms by (simp add: fq_enqueue_def fq_enqueue_tstamp_def Let_def)
qed

text \<open>
  Claim C8, as stated: with \<open>horizon_drop\<close> clear, a packet beyond the horizon is capped,
  counted in \<open>horizon_caps\<close> and queued. This fails when the flow is at its packet limit: in
  \<open>c8_state\<close> (\<open>flow_plimit\<close> 1, \<open>horizon_drop\<close> 0) a first packet of \<open>sock_C\<close> is
  queued; a second one with a timestamp far beyond the horizon is capped and counted in
  \<open>horizon_caps\<close>, and is then dropped for the flow limit: the flow still holds only the
  first packet.
\<close>

theorem C8_capped_packet_dropped_by_flow_limit:
  "horizon_drop c8_state = 0 \<and> flow_plimit c8_state = 1 \<and>
   (case fq_enqueue env0 (mk_skb sock_C 103 0) c8_state of
      (res1, q1) \<Rightarrow> res1 = NET_XMIT_SUCCESS \<and>
        tstamp (mk_skb sock_C 103 1000000000000) \<noteq> 0 \<and>
        fq_packet_beyond_horizon (mk_skb sock_C 103 1000000000000)
          (q1\<lparr>ktime_cache := ktime_ns env0\<rparr>) \<and>
        (case fq_enqueue env0 (mk_skb sock_C 103 1000000000000) q1 of
           (res2, q2) \<Rightarrow> res2 = NET_XMIT_DROP \<and> stat_horizon_caps q2 = 1 \<and>
             stat_flows_plimit q2 = 1 \<and> sch_qlen q2 = 1 \<and>
             map tstamp (head (get_flow q2 (Flow 12288))) = [0] \<and>
             t_root (get_flow q2 (Flow 12288)) = []))"
  by code_simp

text \<open>
  Claim C8, amended: for a packet with a nonzero timestamp that passes the global limit
  (\<open>qlen < limit\<close>) and is beyond the horizon both for the cached time and for the refreshed
  time: if \<open>horizon_drop\<close> is set, enqueue returns \<open>NET_XMIT_DROP\<close> and changes the state
  only by the refreshed \<open>ktime_cache\<close> and one more in \<open>stat_horizon_drops\<close> and in the
  qdisc's drop count, so the packet is not queued; otherwise the timestamp and
  \<open>time_to_send\<close> become \<open>now + horizon\<close>, \<open>stat_horizon_caps\<close> grows by one, and the
  packet is classified and queued in its flow with that \<open>time_to_send\<close> unless the flow is
  at \<open>flow_plimit\<close> (then it is dropped) or, for a detached flow, the packet has no socket.
\<close>

theorem C8_beyond_horizon:
  assumes "tstamp skb \<noteq> 0" and "sch_qlen q < sch_limit q"
    and "fq_packet_beyond_horizon skb q"
    and "fq_packet_beyond_horizon skb (q\<lparr>ktime_cache := ktime_ns e\<rparr>)"
  shows "(horizon_drop q \<noteq> 0 \<longrightarrow>
      fq_enqueue e skb q =
        (NET_XMIT_DROP, q\<lparr>ktime_cache := ktime_ns e,
           stat_horizon_drops := stat_horizon_drops q + 1, sch_drops := sch_drops q + 1\<rparr>)) \<and>
    (horizon_drop q = 0 \<longrightarrow>
      (case fq_classify e
              (skb\<lparr>tstamp := ktime_ns e + horizon q, time_to_send := ktime_ns e + horizon q\<rparr>)
              (q\<lparr>ktime_cache := ktime_ns e, stat_horizon_caps := stat_horizon_caps q + 1\<rparr>) of
         (r, skb2, q2) \<Rightarrow>
           tstamp skb2 = ktime_ns e + horizon q \<and>
           time_to_send skb2 = ktime_ns e + horizon q \<and>
           stat_horizon_caps (snd (fq_enqueue e skb q)) = stat_horizon_caps q + 1 \<and>
           (fst (fq_enqueue e skb q) = NET_XMIT_SUCCESS) =
             (\<not> (flow_plimit q \<le> qlen (get_flow q2 r) \<and> r \<noteq> Internal) \<and>
              \<not> (fq_flow_is_detached (get_flow q2 r) \<and> sk skb2 = None)) \<and>
           (fst (fq_enqueue e skb q) = NET_XMIT_SUCCESS \<longrightarrow>
              skb2 \<in> flow_pkts (get_flow (snd (fq_enqueue e skb q)) r))))"
proof -
  let ?skb1 = "skb\<lparr>tstamp := ktime_ns e + horizon q, time_to_send := ktime_ns e + horizon q\<rparr>"
  let ?q1 = "q\<lparr>ktime_cache := ktime_ns e, stat_horizon_caps := stat_horizon_caps q + 1\<rparr>"
  obtain r skb2 q2 where c: "fq_classify e ?skb1 ?q1 = (r, skb2, q2)"
    by (cases "fq_classify e ?skb1 ?q1") auto
  have s: "tstamp skb2 = ktime_ns e + horizon q" "time_to_send skb2 = ktime_ns e + horizon q"
    using classify_skb [of e ?skb1 ?q1] c by simp_all
  have f: "stat_horizon_caps q2 = stat_horizon_caps q + 1" "flow_plimit q2 = flow_plimit q"
    using classify_fields(3,4) [of e ?skb1 ?q1] c by simp_all
  have "horizon_drop q = 0 \<Longrightarrow> fq_enqueue e skb q = fq_enqueue_flow e r skb2 q2"
    using enqueue_beyond_horizon_cap [OF assms, of] c by simp
  then show ?thesis
    using enqueue_beyond_horizon_drop [OF assms] c s f
      enqueue_flow_success [of e r skb2 q2] enqueue_flow_queued [of e r skb2 q2]
    by simp
qed


theorem C5_detached_flow_to_new_flows_witness:
  "fst (fq_enqueue env0 (mk_skb (mk_sock 16384 101 46730) 101 0) c5_state) = NET_XMIT_SUCCESS \<and>
   (case fq_enqueue_tstamp env0 (mk_skb (mk_sock 16384 101 46730) 101 0) c5_state of
      (None, q1) \<Rightarrow> False
    | (Some skb1, q1) \<Rightarrow>
        (case fq_classify env0 skb1 q1 of
           (r, skb2, q2) \<Rightarrow>
             new_flows (snd (fq_enqueue env0 (mk_skb (mk_sock 16384 101 46730) 101 0) c5_state)) =
               (if fq_flow_is_detached (get_flow q2 r) then new_flows c5_state @ [r]
                else new_flows c5_state)))"
proof -
  have a: "fst (fq_enqueue env0 (mk_skb (mk_sock 16384 101 46730) 101 0) c5_state)
      = NET_XMIT_SUCCESS"
    by code_simp
  show ?thesis
    using a C5_detached_flow_to_new_flows
      [of env0 "mk_skb (mk_sock 16384 101 46730) 101 0" c5_state]
    by simp
qed

theorem C8_beyond_horizon_witness:
  "tstamp (mk_skb sock_C 103 1000000000000) \<noteq> 0 \<and>
   sch_qlen sched0 < sch_limit sched0 \<and>
   fq_packet_beyond_horizon (mk_skb sock_C 103 1000000000000) sched0 \<and>
   fq_packet_beyond_horizon (mk_skb sock_C 103 1000000000000)
     (sched0\<lparr>ktime_cache := ktime_ns env0\<rparr>) \<and>
   horizon_drop sched0 \<noteq> 0 \<and>
   fq_enqueue env0 (mk_skb sock_C 103 1000000000000) sched0 =
     (NET_XMIT_DROP, sched0\<lparr>ktime_cache := ktime_ns env0,
        stat_horizon_drops := stat_horizon_drops sched0 + 1,
        sch_drops := sch_drops sched0 + 1\<rparr>) \<and>
   sch_qlen c8_state < sch_limit c8_state \<and>
   fq_packet_beyond_horizon (mk_skb sock_C 103 1000000000000) c8_state \<and>
   fq_packet_beyond_horizon (mk_skb sock_C 103 1000000000000)
     (c8_state\<lparr>ktime_cache := ktime_ns env0\<rparr>) \<and>
   horizon_drop c8_state = 0 \<and>
   fst (fq_enqueue env0 (mk_skb sock_C 103 1000000000000) c8_state) = NET_XMIT_SUCCESS \<and>
   (case fq_classify env0
           ((mk_skb sock_C 103 1000000000000)
              \<lparr>tstamp := ktime_ns env0 + horizon c8_state,
                 time_to_send := ktime_ns env0 + horizon c8_state\<rparr>)
           (c8_state\<lparr>ktime_cache := ktime_ns env0,
              stat_horizon_caps := stat_horizon_caps c8_state + 1\<rparr>) of
      (r, skb2, q2) \<Rightarrow>
        tstamp skb2 = ktime_ns env0 + horizon c8_state \<and>
        time_to_send skb2 = ktime_ns env0 + horizon c8_state \<and>
        stat_horizon_caps (snd (fq_enqueue env0 (mk_skb sock_C 103 1000000000000) c8_state)) =
          stat_horizon_caps c8_state + 1 \<and>
        skb2 \<in> flow_pkts
          (get_flow (snd (fq_enqueue env0 (mk_skb sock_C 103 1000000000000) c8_state)) r))"
proof -
  have t: "tstamp (mk_skb sock_C 103 1000000000000) \<noteq> 0"
    by code_simp
  have a: "sch_qlen sched0 < sch_limit sched0"
    "fq_packet_beyond_horizon (mk_skb sock_C 103 1000000000000) sched0"
    "fq_packet_beyond_horizon (mk_skb sock_C 103 1000000000000)
       (sched0\<lparr>ktime_cache := ktime_ns env0\<rparr>)"
    "horizon_drop sched0 \<noteq> 0"
    by code_simp+
  have b: "sch_qlen c8_state < sch_limit c8_state"
    "fq_packet_beyond_horizon (mk_skb sock_C 103 1000000000000) c8_state"
    "fq_packet_beyond_horizon (mk_skb sock_C 103 1000000000000)
       (c8_state\<lparr>ktime_cache := ktime_ns env0\<rparr>)"
    "horizon_drop c8_state = 0"
    by code_simp+
  have c: "fst (fq_enqueue env0 (mk_skb sock_C 103 1000000000000) c8_state) = NET_XMIT_SUCCESS"
    by code_simp
  show ?thesis
    using t a b c C8_beyond_horizon [OF t a(1,2,3)] C8_beyond_horizon [OF t b(1,2,3)]
    by (simp add: case_prod_beta)
qed

section \<open>Packets returned by dequeue\<close>

lemma pop_first_others [simp]:
  "sch_qlen (pop_first q h) = sch_qlen q"
  "sch_limit (pop_first q h) = sch_limit q"
  "sch_backlog (pop_first q h) = sch_backlog q"
  "sch_drops (pop_first q h) = sch_drops q"
  "bstats_bytes (pop_first q h) = bstats_bytes q"
  "bstats_packets (pop_first q h) = bstats_packets q"
  "delayed (pop_first q h) = delayed q"
  "time_next_delayed_flow (pop_first q h) = time_next_delayed_flow q"
  "ktime_cache (pop_first q h) = ktime_cache q"
  "unthrottle_latency_ns (pop_first q h) = unthrottle_latency_ns q"
  "fq_root_allocated (pop_first q h) = fq_root_allocated q"
  "fq_root (pop_first q h) = fq_root q"
  "quantum (pop_first q h) = quantum q"
  "initial_quantum (pop_first q h) = initial_quantum q"
  "flow_refill_delay (pop_first q h) = flow_refill_delay q"
  "flow_plimit (pop_first q h) = flow_plimit q"
  "flow_max_rate (pop_first q h) = flow_max_rate q"
  "ce_threshold (pop_first q h) = ce_threshold q"
  "horizon (pop_first q h) = horizon q"
  "orphan_mask (pop_first q h) = orphan_mask q"
  "low_rate_threshold (pop_first q h) = low_rate_threshold q"
  "rate_enable (pop_first q h) = rate_enable q"
  "fq_trees_log (pop_first q h) = fq_trees_log q"
  "horizon_drop (pop_first q h) = horizon_drop q"
  "timer_slack (pop_first q h) = timer_slack q"
  "flows (pop_first q h) = flows q"
  "inactive_flows (pop_first q h) = inactive_flows q"
  "throttled_flows (pop_first q h) = throttled_flows q"
  "stat_gc_flows (pop_first q h) = stat_gc_flows q"
  "stat_internal_packets (pop_first q h) = stat_internal_packets q"
  "stat_throttled (pop_first q h) = stat_throttled q"
  "stat_ce_mark (pop_first q h) = stat_ce_mark q"
  "stat_horizon_drops (pop_first q h) = stat_horizon_drops q"
  "stat_horizon_caps (pop_first q h) = stat_horizon_caps q"
  "stat_flows_plimit (pop_first q h) = stat_flows_plimit q"
  "stat_pkts_too_long (pop_first q h) = stat_pkts_too_long q"
  "stat_allocation_errors (pop_first q h) = stat_allocation_errors q"
  "f1_sourceport (pop_first q h) = f1_sourceport q"
  "f2_sourceport (pop_first q h) = f2_sourceport q"
  "f1_destport (pop_first q h) = f1_destport q"
  "f2_destport (pop_first q h) = f2_destport q"
  "watchdog (pop_first q h) = watchdog q"
  "pFlowid0 (pop_first q h) = pFlowid0 q"
  "pFlowid1 (pop_first q h) = pFlowid1 q"
  "ucounter (pop_first q h) = ucounter q"
  "flipflag (pop_first q h) = flipflag q"
  "sport (pop_first q h) = sport q"
  "dport (pop_first q h) = dport q"
  by (simp_all add: pop_first_def)

lemma get_flow_pop_first [simp]: "get_flow (pop_first q h) r = get_flow q r"
  by (simp add: pop_first_def)

lemma fq_dequeue_skb_others [simp]:
  "sch_limit (fq_dequeue_skb q r skb) = sch_limit q"
  "sch_drops (fq_dequeue_skb q r skb) = sch_drops q"
  "bstats_bytes (fq_dequeue_skb q r skb) = bstats_bytes q"
  "bstats_packets (fq_dequeue_skb q r skb) = bstats_packets q"
  "new_flows (fq_dequeue_skb q r skb) = new_flows q"
  "old_flows (fq_dequeue_skb q r skb) = old_flows q"
  "co_flows (fq_dequeue_skb q r skb) = co_flows q"
  "delayed (fq_dequeue_skb q r skb) = delayed q"
  "time_next_delayed_flow (fq_dequeue_skb q r skb) = time_next_delayed_flow q"
  "ktime_cache (fq_dequeue_skb q r skb) = ktime_cache q"
  "unthrottle_latency_ns (fq_dequeue_skb q r skb) = unthrottle_latency_ns q"
  "fq_root_allocated (fq_dequeue_skb q r skb) = fq_root_allocated q"
  "fq_root (fq_dequeue_skb q r skb) = fq_root q"
  "quantum (fq_dequeue_skb q r skb) = quantum q"
  "initial_quantum (fq_dequeue_skb q r skb) = initial_quantum q"
  "flow_refill_delay (fq_dequeue_skb q r skb) = flow_refill_delay q"
  "flow_plimit (fq_dequeue_skb q r skb) = flow_plimit q"
  "flow_max_rate (fq_dequeue_skb q r skb) = flow_max_rate q"
  "ce_threshold (fq_dequeue_skb q r skb) = ce_threshold q"
  "horizon (fq_dequeue_skb q r skb) = horizon q"
  "orphan_mask (fq_dequeue_skb q r skb) = orphan_mask q"
  "low_rate_threshold (fq_dequeue_skb q r skb) = low_rate_threshold q"
  "rate_enable (fq_dequeue_skb q r skb) = rate_enable q"
  "fq_trees_log (fq_dequeue_skb q r skb) = fq_trees_log q"
  "horizon_drop (fq_dequeue_skb q r skb) = horizon_drop q"
  "timer_slack (fq_dequeue_skb q r skb) = timer_slack q"
  "flows (fq_dequeue_skb q r skb) = flows q"
  "inactive_flows (fq_dequeue_skb q r skb) = inactive_flows q"
  "throttled_flows (fq_dequeue_skb q r skb) = throttled_flows q"
  "stat_gc_flows (fq_dequeue_skb q r skb) = stat_gc_flows q"
  "stat_internal_packets (fq_dequeue_skb q r skb) = stat_internal_packets q"
  "stat_throttled (fq_dequeue_skb q r skb) = stat_throttled q"
  "stat_ce_mark (fq_dequeue_skb q r skb) = stat_ce_mark q"
  "stat_horizon_drops (fq_dequeue_skb q r skb) = stat_horizon_drops q"
  "stat_horizon_caps (fq_dequeue_skb q r skb) = stat_horizon_caps q"
  "stat_flows_plimit (fq_dequeue_skb q r skb) = stat_flows_plimit q"
  "stat_pkts_too_long (fq_dequeue_skb q r skb) = stat_pkts_too_long q"
  "stat_allocation_errors (fq_dequeue_skb q r skb) = stat_allocation_errors q"
  "f1_sourceport (fq_dequeue_skb q r skb) = f1_sourceport q"
  "f2_sourceport (fq_dequeue_skb q r skb) = f2_sourceport q"
  "f1_destport (fq_dequeue_skb q r skb) = f1_destport q"
  "f2_destport (fq_dequeue_skb q r skb) = f2_destport q"
  "watchdog (fq_dequeue_skb q r skb) = watchdog q"
  "pFlowid0 (fq_dequeue_skb q r skb) = pFlowid0 q"
  "pFlowid1 (fq_dequeue_skb q r skb) = pFlowid1 q"
  "ucounter (fq_dequeue_skb q r skb) = ucounter q"
  "flipflag (fq_dequeue_skb q r skb) = flipflag q"
  "sport (fq_dequeue_skb q r skb) = sport q"
  "dport (fq_dequeue_skb q r skb) = dport q"
  by (simp_all add: fq_dequeue_skb_def Let_def)

lemma fq_pace_others [simp]:
  "sch_qlen (fq_pace now r rate plen q) = sch_qlen q"
  "sch_limit (fq_pace now r rate plen q) = sch_limit q"
  "sch_backlog (fq_pace now r rate plen q) = sch_backlog q"
  "sch_drops (fq_pace now r rate plen q) = sch_drops q"
  "bstats_bytes (fq_pace now r rate plen q) = bstats_bytes q"
  "bstats_packets (fq_pace now r rate plen q) = bstats_packets q"
  "new_flows (fq_pace now r rate plen q) = new_flows q"
  "old_flows (fq_pace now r rate plen q) = old_flows q"
  "co_flows (fq_pace now r rate plen q) = co_flows q"
  "delayed (fq_pace now r rate plen q) = delayed q"
  "time_next_delayed_flow (fq_pace now r rate plen q) = time_next_delayed_flow q"
  "ktime_cache (fq_pace now r rate plen q) = ktime_cache q"
  "unthrottle_latency_ns (fq_pace now r rate plen q) = unthrottle_latency_ns q"
  "fq_root_allocated (fq_pace now r rate plen q) = fq_root_allocated q"
  "fq_root (fq_pace now r rate plen q) = fq_root q"
  "quantum (fq_pace now r rate plen q) = quantum q"
  "initial_quantum (fq_pace now r rate plen q) = initial_quantum q"
  "flow_refill_delay (fq_pace now r rate plen q) = flow_refill_delay q"
  "flow_plimit (fq_pace now r rate plen q) = flow_plimit q"
  "flow_max_rate (fq_pace now r rate plen q) = flow_max_rate q"
  "ce_threshold (fq_pace now r rate plen q) = ce_threshold q"
  "horizon (fq_pace now r rate plen q) = horizon q"
  "orphan_mask (fq_pace now r rate plen q) = orphan_mask q"
  "low_rate_threshold (fq_pace now r rate plen q) = low_rate_threshold q"
  "rate_enable (fq_pace now r rate plen q) = rate_enable q"
  "fq_trees_log (fq_pace now r rate plen q) = fq_trees_log q"
  "horizon_drop (fq_pace now r rate plen q) = horizon_drop q"
  "timer_slack (fq_pace now r rate plen q) = timer_slack q"
  "flows (fq_pace now r rate plen q) = flows q"
  "inactive_flows (fq_pace now r rate plen q) = inactive_flows q"
  "throttled_flows (fq_pace now r rate plen q) = throttled_flows q"
  "stat_gc_flows (fq_pace now r rate plen q) = stat_gc_flows q"
  "stat_internal_packets (fq_pace now r rate plen q) = stat_internal_packets q"
  "stat_throttled (fq_pace now r rate plen q) = stat_throttled q"
  "stat_ce_mark (fq_pace now r rate plen q) = stat_ce_mark q"
  "stat_horizon_drops (fq_pace now r rate plen q) = stat_horizon_drops q"
  "stat_horizon_caps (fq_pace now r rate plen q) = stat_horizon_caps q"
  "stat_flows_plimit (fq_pace now r rate plen q) = stat_flows_plimit q"
  "stat_allocation_errors (fq_pace now r rate plen q) = stat_allocation_errors q"
  "f1_sourceport (fq_pace now r rate plen q) = f1_sourceport q"
  "f2_sourceport (fq_pace now r rate plen q) = f2_sourceport q"
  "f1_destport (fq_pace now r rate plen q) = f1_destport q"
  "f2_destport (fq_pace now r rate plen q) = f2_destport q"
  "watchdog (fq_pace now r rate plen q) = watchdog q"
  "pFlowid0 (fq_pace now r rate plen q) = pFlowid0 q"
  "pFlowid1 (fq_pace now r rate plen q) = pFlowid1 q"
  "ucounter (fq_pace now r rate plen q) = ucounter q"
  "flipflag (fq_pace now r rate plen q) = flipflag q"
  "sport (fq_pace now r rate plen q) = sport q"
  "dport (fq_pace now r rate plen q) = dport q"
  by (simp_all add: fq_pace_def Let_def)

lemma fq_dequeue_credit_others [simp]:
  "sch_qlen (fq_dequeue_credit now r skb q) = sch_qlen q"
  "sch_limit (fq_dequeue_credit now r skb q) = sch_limit q"
  "sch_backlog (fq_dequeue_credit now r skb q) = sch_backlog q"
  "sch_drops (fq_dequeue_credit now r skb q) = sch_drops q"
  "bstats_bytes (fq_dequeue_credit now r skb q) = bstats_bytes q"
  "bstats_packets (fq_dequeue_credit now r skb q) = bstats_packets q"
  "new_flows (fq_dequeue_credit now r skb q) = new_flows q"
  "old_flows (fq_dequeue_credit now r skb q) = old_flows q"
  "co_flows (fq_dequeue_credit now r skb q) = co_flows q"
  "delayed (fq_dequeue_credit now r skb q) = delayed q"
  "time_next_delayed_flow (fq_dequeue_credit now r skb q) = time_next_delayed_flow q"
  "ktime_cache (fq_dequeue_credit now r skb q) = ktime_cache q"
  "unthrottle_latency_ns (fq_dequeue_credit now r skb q) = unthrottle_latency_ns q"
  "fq_root_allocated (fq_dequeue_credit now r skb q) = fq_root_allocated q"
  "fq_root (fq_dequeue_credit now r skb q) = fq_root q"
  "quantum (fq_dequeue_credit now r skb q) = quantum q"
  "initial_quantum (fq_dequeue_credit now r skb q) = initial_quantum q"
  "flow_refill_delay (fq_dequeue_credit now r skb q) = flow_refill_delay q"
  "flow_plimit (fq_dequeue_credit now r skb q) = flow_plimit q"
  "flow_max_rate (fq_dequeue_credit now r skb q) = flow_max_rate q"
  "ce_threshold (fq_dequeue_credit now r skb q) = ce_threshold q"
  "horizon (fq_dequeue_credit now r skb q) = horizon q"
  "orphan_mask (fq_dequeue_credit now r skb q) = orphan_mask q"
  "low_rate_threshold (fq_dequeue_credit now r skb q) = low_rate_threshold q"
  "rate_enable (fq_dequeue_credit now r skb q) = rate_enable q"
  "fq_trees_log (fq_dequeue_credit now r skb q) = fq_trees_log q"
  "horizon_drop (fq_dequeue_credit now r skb q) = horizon_drop q"
  "timer_slack (fq_dequeue_credit now r skb q) = timer_slack q"
  "flows (fq_dequeue_credit now r skb q) = flows q"
  "inactive_flows (fq_dequeue_credit now r skb q) = inactive_flows q"
  "throttled_flows (fq_dequeue_credit now r skb q) = throttled_flows q"
  "stat_gc_flows (fq_dequeue_credit now r skb q) = stat_gc_flows q"
  "stat_internal_packets (fq_dequeue_credit now r skb q) = stat_internal_packets q"
  "stat_throttled (fq_dequeue_credit now r skb q) = stat_throttled q"
  "stat_ce_mark (fq_dequeue_credit now r skb q) = stat_ce_mark q"
  "stat_horizon_drops (fq_dequeue_credit now r skb q) = stat_horizon_drops q"
  "stat_horizon_caps (fq_dequeue_credit now r skb q) = stat_horizon_caps q"
  "stat_flows_plimit (fq_dequeue_credit now r skb q) = stat_flows_plimit q"
  "stat_allocation_errors (fq_dequeue_credit now r skb q) = stat_allocation_errors q"
  "f1_sourceport (fq_dequeue_credit now r skb q) = f1_sourceport q"
  "f2_sourceport (fq_dequeue_credit now r skb q) = f2_sourceport q"
  "f1_destport (fq_dequeue_credit now r skb q) = f1_destport q"
  "f2_destport (fq_dequeue_credit now r skb q) = f2_destport q"
  "watchdog (fq_dequeue_credit now r skb q) = watchdog q"
  "pFlowid0 (fq_dequeue_credit now r skb q) = pFlowid0 q"
  "pFlowid1 (fq_dequeue_credit now r skb q) = pFlowid1 q"
  "ucounter (fq_dequeue_credit now r skb q) = ucounter q"
  "flipflag (fq_dequeue_credit now r skb q) = flipflag q"
  "sport (fq_dequeue_credit now r skb q) = sport q"
  "dport (fq_dequeue_credit now r skb q) = dport q"
  by (simp_all add: fq_dequeue_credit_def Let_def)

lemma qdisc_bstats_update_others [simp]:
  "sch_qlen (qdisc_bstats_update q skb) = sch_qlen q"
  "sch_limit (qdisc_bstats_update q skb) = sch_limit q"
  "sch_backlog (qdisc_bstats_update q skb) = sch_backlog q"
  "sch_drops (qdisc_bstats_update q skb) = sch_drops q"
  "new_flows (qdisc_bstats_update q skb) = new_flows q"
  "old_flows (qdisc_bstats_update q skb) = old_flows q"
  "co_flows (qdisc_bstats_update q skb) = co_flows q"
  "delayed (qdisc_bstats_update q skb) = delayed q"
  "time_next_delayed_flow (qdisc_bstats_update q skb) = time_next_delayed_flow q"
  "ktime_cache (qdisc_bstats_update q skb) = ktime_cache q"
  "unthrottle_latency_ns (qdisc_bstats_update q skb) = unthrottle_latency_ns q"
  "fq_root_allocated (qdisc_bstats_update q skb) = fq_root_allocated q"
  "fq_root (qdisc_bstats_update q skb) = fq_root q"
  "quantum (qdisc_bstats_update q skb) = quantum q"
  "initial_quantum (qdisc_bstats_update q skb) = initial_quantum q"
  "flow_refill_delay (qdisc_bstats_update q skb) = flow_refill_delay q"
  "flow_plimit (qdisc_bstats_update q skb) = flow_plimit q"
  "flow_max_rate (qdisc_bstats_update q skb) = flow_max_rate q"
  "ce_threshold (qdisc_bstats_update q skb) = ce_threshold q"
  "horizon (qdisc_bstats_update q skb) = horizon q"
  "orphan_mask (qdisc_bstats_update q skb) = orphan_mask q"
  "low_rate_threshold (qdisc_bstats_update q skb) = low_rate_threshold q"
  "rate_enable (qdisc_bstats_update q skb) = rate_enable q"
  "fq_trees_log (qdisc_bstats_update q skb) = fq_trees_log q"
  "horizon_drop (qdisc_bstats_update q skb) = horizon_drop q"
  "timer_slack (qdisc_bstats_update q skb) = timer_slack q"
  "flows (qdisc_bstats_update q skb) = flows q"
  "inactive_flows (qdisc_bstats_update q skb) = inactive_flows q"
  "throttled_flows (qdisc_bstats_update q skb) = throttled_flows q"
  "stat_gc_flows (qdisc_bstats_update q skb) = stat_gc_flows q"
  "stat_internal_packets (qdisc_bstats_update q skb) = stat_internal_packets q"
  "stat_throttled (qdisc_bstats_update q skb) = stat_throttled q"
  "stat_ce_mark (qdisc_bstats_update q skb) = stat_ce_mark q"
  "stat_horizon_drops (qdisc_bstats_update q skb) = stat_horizon_drops q"
  "stat_horizon_caps (qdisc_bstats_update q skb) = stat_horizon_caps q"
  "stat_flows_plimit (qdisc_bstats_update q skb) = stat_flows_plimit q"
  "stat_pkts_too_long (qdisc_bstats_update q skb) = stat_pkts_too_long q"
  "stat_allocation_errors (qdisc_bstats_update q skb) = stat_allocation_errors q"
  "f1_sourceport (qdisc_bstats_update q skb) = f1_sourceport q"
  "f2_sourceport (qdisc_bstats_update q skb) = f2_sourceport q"
  "f1_destport (qdisc_bstats_update q skb) = f1_destport q"
  "f2_destport (qdisc_bstats_update q skb) = f2_destport q"
  "watchdog (qdisc_bstats_update q skb) = watchdog q"
  "pFlowid0 (qdisc_bstats_update q skb) = pFlowid0 q"
  "pFlowid1 (qdisc_bstats_update q skb) = pFlowid1 q"
  "ucounter (qdisc_bstats_update q skb) = ucounter q"
  "flipflag (qdisc_bstats_update q skb) = flipflag q"
  "sport (qdisc_bstats_update q skb) = sport q"
  "dport (qdisc_bstats_update q skb) = dport q"
  by (simp_all add: qdisc_bstats_update_def)

lemma Promotecoflows_others [simp]:
  "sch_qlen (Promotecoflows q r) = sch_qlen q"
  "sch_limit (Promotecoflows q r) = sch_limit q"
  "sch_backlog (Promotecoflows q r) = sch_backlog q"
  "sch_drops (Promotecoflows q r) = sch_drops q"
  "bstats_bytes (Promotecoflows q r) = bstats_bytes q"
  "bstats_packets (Promotecoflows q r) = bstats_packets q"
  "delayed (Promotecoflows q r) = delayed q"
  "time_next_delayed_flow (Promotecoflows q r) = time_next_delayed_flow q"
  "ktime_cache (Promotecoflows q r) = ktime_cache q"
  "unthrottle_latency_ns (Promotecoflows q r) = unthrottle_latency_ns q"
  "fq_root_allocated (Promotecoflows q r) = fq_root_allocated q"
  "fq_root (Promotecoflows q r) = fq_root q"
  "quantum (Promotecoflows q r) = quantum q"
  "initial_quantum (Promotecoflows q r) = initial_quantum q"
  "flow_refill_delay (Promotecoflows q r) = flow_refill_delay q"
  "flow_plimit (Promotecoflows q r) = flow_plimit q"
  "flow_max_rate (Promotecoflows q r) = flow_max_rate q"
  "ce_threshold (Promotecoflows q r) = ce_threshold q"
  "horizon (Promotecoflows q r) = horizon q"
  "orphan_mask (Promotecoflows q r) = orphan_mask q"
  "low_rate_threshold (Promotecoflows q r) = low_rate_threshold q"
  "rate_enable (Promotecoflows q r) = rate_enable q"
  "fq_trees_log (Promotecoflows q r) = fq_trees_log q"
  "horizon_drop (Promotecoflows q r) = horizon_drop q"
  "timer_slack (Promotecoflows q r) = timer_slack q"
  "flows (Promotecoflows q r) = flows q"
  "inactive_flows (Promotecoflows q r) = inactive_flows q"
  "throttled_flows (Promotecoflows q r) = throttled_flows q"
  "stat_gc_flows (Promotecoflows q r) = stat_gc_flows q"
  "stat_internal_packets (Promotecoflows q r) = stat_internal_packets q"
  "stat_throttled (Promotecoflows q r) = stat_throttled q"
  "stat_ce_mark (Promotecoflows q r) = stat_ce_mark q"
  "stat_horizon_drops (Promotecoflows q r) = stat_horizon_drops q"
  "stat_horizon_caps (Promotecoflows q r) = stat_horizon_caps q"
  "stat_flows_plimit (Promotecoflows q r) = stat_flows_plimit q"
  "stat_pkts_too_long (Promotecoflows q r) = stat_pkts_too_long q"
  "stat_allocation_errors (Promotecoflows q r) = stat_allocation_errors q"
  "f1_sourceport (Promotecoflows q r) = f1_sourceport q"
  "f2_sourceport (Promotecoflows q r) = f2_sourceport q"
  "f1_destport (Promotecoflows q r) = f1_destport q"
  "f2_destport (Promotecoflows q r) = f2_destport q"
  "watchdog (Promotecoflows q r) = watchdog q"
  "pFlowid0 (Promotecoflows q r) = pFlowid0 q"
  "pFlowid1 (Promotecoflows q r) = pFlowid1 q"
  "ucounter (Promotecoflows q r) = ucounter q"
  "flipflag (Promotecoflows q r) = flipflag q"
  "sport (Promotecoflows q r) = sport q"
  "dport (Promotecoflows q r) = dport q"
  by (simp_all add: Promotecoflows_def)

lemma fq_dequeue_flow_others [simp]:
  "sch_limit (pass_state (fq_dequeue_flow e h r q)) = sch_limit q"
  "sch_drops (pass_state (fq_dequeue_flow e h r q)) = sch_drops q"
  "ktime_cache (pass_state (fq_dequeue_flow e h r q)) = ktime_cache q"
  "unthrottle_latency_ns (pass_state (fq_dequeue_flow e h r q)) = unthrottle_latency_ns q"
  "fq_root_allocated (pass_state (fq_dequeue_flow e h r q)) = fq_root_allocated q"
  "fq_root (pass_state (fq_dequeue_flow e h r q)) = fq_root q"
  "quantum (pass_state (fq_dequeue_flow e h r q)) = quantum q"
  "initial_quantum (pass_state (fq_dequeue_flow e h r q)) = initial_quantum q"
  "flow_refill_delay (pass_state (fq_dequeue_flow e h r q)) = flow_refill_delay q"
  "flow_plimit (pass_state (fq_dequeue_flow e h r q)) = flow_plimit q"
  "flow_max_rate (pass_state (fq_dequeue_flow e h r q)) = flow_max_rate q"
  "ce_threshold (pass_state (fq_dequeue_flow e h r q)) = ce_threshold q"
  "horizon (pass_state (fq_dequeue_flow e h r q)) = horizon q"
  "orphan_mask (pass_state (fq_dequeue_flow e h r q)) = orphan_mask q"
  "low_rate_threshold (pass_state (fq_dequeue_flow e h r q)) = low_rate_threshold q"
  "rate_enable (pass_state (fq_dequeue_flow e h r q)) = rate_enable q"
  "fq_trees_log (pass_state (fq_dequeue_flow e h r q)) = fq_trees_log q"
  "horizon_drop (pass_state (fq_dequeue_flow e h r q)) = horizon_drop q"
  "timer_slack (pass_state (fq_dequeue_flow e h r q)) = timer_slack q"
  "flows (pass_state (fq_dequeue_flow e h r q)) = flows q"
  "stat_gc_flows (pass_state (fq_dequeue_flow e h r q)) = stat_gc_flows q"
  "stat_internal_packets (pass_state (fq_dequeue_flow e h r q)) = stat_internal_packets q"
  "stat_horizon_drops (pass_state (fq_dequeue_flow e h r q)) = stat_horizon_drops q"
  "stat_horizon_caps (pass_state (fq_dequeue_flow e h r q)) = stat_horizon_caps q"
  "stat_flows_plimit (pass_state (fq_dequeue_flow e h r q)) = stat_flows_plimit q"
  "stat_allocation_errors (pass_state (fq_dequeue_flow e h r q)) = stat_allocation_errors q"
  "f1_sourceport (pass_state (fq_dequeue_flow e h r q)) = f1_sourceport q"
  "f2_sourceport (pass_state (fq_dequeue_flow e h r q)) = f2_sourceport q"
  "f1_destport (pass_state (fq_dequeue_flow e h r q)) = f1_destport q"
  "f2_destport (pass_state (fq_dequeue_flow e h r q)) = f2_destport q"
  "watchdog (pass_state (fq_dequeue_flow e h r q)) = watchdog q"
  "pFlowid0 (pass_state (fq_dequeue_flow e h r q)) = pFlowid0 q"
  "pFlowid1 (pass_state (fq_dequeue_flow e h r q)) = pFlowid1 q"
  "ucounter (pass_state (fq_dequeue_flow e h r q)) = ucounter q"
  "flipflag (pass_state (fq_dequeue_flow e h r q)) = flipflag q"
  "sport (pass_state (fq_dequeue_flow e h r q)) = sport q"
  "dport (pass_state (fq_dequeue_flow e h r q)) = dport q"
  by (simp_all add: fq_dequeue_flow_def pass_state_def Let_def split: option.splits)

lemma dequeue_flow_due:
  "fq_dequeue_flow e h r q = Return (Some skb) q' \<Longrightarrow> time_to_send skb \<le> ktime_ns e"
  by (auto simp: fq_dequeue_flow_def Let_def not_less split: option.splits if_splits)

lemma dequeue_pass_due:
  "fq_dequeue_pass e q = Return (Some skb) q' \<Longrightarrow> time_to_send skb \<le> ktime_ns e"
  by (auto simp: fq_dequeue_pass_def Let_def dequeue_flow_due split: option.splits if_splits)

lemma dequeue_begin_due:
  "fq_dequeue_begin n e q = Some (Some skb, q') \<Longrightarrow> time_to_send skb \<le> ktime_ns e"
proof (induction n arbitrary: q)
  case 0
  then show ?case by simp
next
  case (Suc n)
  show ?case
  proof (cases "fq_dequeue_pass e q")
    case (Restart q1)
    with Suc show ?thesis by simp
  next
    case (Return res q1)
    with Suc.prems dequeue_pass_due [of e q skb q1] show ?thesis by simp
  qed
qed

text \<open>
  Claim C6, as stated: no dequeue returns a packet before its \<open>time_to_send\<close>, packets of
  the internal flow included. This fails for the internal flow: in \<open>c6_state\<close> a control
  packet due at 5000 is queued, and a dequeue at time 1000 returns it.
\<close>

theorem C6_internal_packet_before_time_to_send:
  "case fq_dequeue 5 env0 c6_state of
     Some (Some skb, q) \<Rightarrow> priority skb = 7 \<and> time_to_send skb = 5000 \<and> ktime_ns env0 = 1000 \<and>
       \<not> ktime_ns env0 \<ge> time_to_send skb
   | _ \<Rightarrow> False"
  by code_simp

text \<open>
  Claim C6, amended: when the internal flow holds no packet, every packet that dequeue returns
  (so every packet taken from a flow of the round-robin lists) has a \<open>time_to_send\<close> that
  is at most the time \<open>now\<close> read by this dequeue. Packets of the internal flow are returned
  without looking at the clock.
\<close>

theorem C6_not_before_time_to_send:
  assumes "fq_peek (internal q) = None"
    and "map_option fst (fq_dequeue n e q) = Some (Some skb)"
  shows "time_to_send skb \<le> ktime_ns e"
proof -
  obtain q' where d: "fq_dequeue n e q = Some (Some skb, q')"
    using assms(2) by (cases "fq_dequeue n e q") auto
  then show ?thesis
    using assms(1) dequeue_begin_due
    by (auto simp: fq_dequeue_def split: if_splits)
qed

theorem C6_not_before_time_to_send_witness:
  "fq_peek (internal c3_state) = None \<and>
   map_option fst (fq_dequeue 10 env0 c3_state) =
     Some (Some ((mk_skb (sock_B\<lparr>sk_pacing_status := 2\<rparr>) 102 0)\<lparr>time_to_send := 1000\<rparr>)) \<and>
   time_to_send ((mk_skb (sock_B\<lparr>sk_pacing_status := 2\<rparr>) 102 0)\<lparr>time_to_send := 1000\<rparr>)
     \<le> ktime_ns env0"
proof -
  have a: "fq_peek (internal c3_state) = None"
    by code_simp
  have b: "map_option fst (fq_dequeue 10 env0 c3_state) =
     Some (Some ((mk_skb (sock_B\<lparr>sk_pacing_status := 2\<rparr>) 102 0)\<lparr>time_to_send := 1000\<rparr>))"
    by code_simp
  show ?thesis
    using a b C6_not_before_time_to_send [OF a b] by simp
qed

section \<open>Promotion, breach and relief\<close>

lemma select_head_co: "select_head q = Some CO_FLOWS \<Longrightarrow> flipflag q \<noteq> 0"
  by (auto simp: select_head_def Let_def split: if_splits)

lemma update_flipflag_same: "flipflag q = v \<Longrightarrow> q\<lparr>flipflag := v\<rparr> = q"
  by (cases q) simp

lemma pass_breach:
  "select_head q = Some h \<Longrightarrow> h \<noteq> CO_FLOWS \<Longrightarrow> ucounter q = 2 \<Longrightarrow>
   \<not> is_co_flow q (hd (get_list q h)) \<Longrightarrow> fq_dequeue_pass e q = Restart (q\<lparr>flipflag := 1\<rparr>)"
  by (simp add: fq_dequeue_pass_def Let_def is_co_flow_def)

lemma pass_promote:
  "select_head q = Some h \<Longrightarrow> h \<noteq> CO_FLOWS \<Longrightarrow> is_co_flow q (hd (get_list q h)) \<Longrightarrow>
   fq_dequeue_pass e q =
     Restart ((Promotecoflows q (hd (get_list q h)))\<lparr>ucounter := ucounter q + 1\<rparr>)"
  by (simp add: fq_dequeue_pass_def Let_def is_co_flow_def)

lemma pass_relief:
  "select_head q = Some CO_FLOWS \<Longrightarrow> ucounter q = 0 \<Longrightarrow>
   fq_dequeue_pass e q = Restart (q\<lparr>flipflag := 0\<rparr>)"
  by (simp add: fq_dequeue_pass_def Let_def)

lemma pass_co_decrements:
  "select_head q = Some CO_FLOWS \<Longrightarrow> ucounter q \<noteq> 0 \<Longrightarrow>
   ucounter (pass_state (fq_dequeue_pass e q)) = ucounter q - 1 \<and>
   flipflag (pass_state (fq_dequeue_pass e q)) = flipflag q"
  using select_head_co [of q]
  by (simp add: fq_dequeue_pass_def Let_def)

lemma spin_pass: "spin_state q \<Longrightarrow> fq_dequeue_pass e q = Restart (q\<lparr>flipflag := 1\<rparr>)"
proof -
  assume s: "spin_state q"
  then have "select_head q = Some NEW_FLOWS"
    by (simp add: spin_state_def select_head_def Let_def)
  then show ?thesis
    using s pass_breach [of q NEW_FLOWS e] by (simp add: spin_state_def)
qed

lemma spin_state_flipflag: "spin_state q \<Longrightarrow> spin_state (q\<lparr>flipflag := 1\<rparr>)"
  by (simp add: spin_state_def is_co_flow_def)

lemma spin_never_returns: "spin_state q \<Longrightarrow> fq_dequeue_begin n e q = None"
proof (induction n arbitrary: q)
  case 0
  show ?case by simp
next
  case (Suc n)
  have "fq_dequeue_begin n e (q\<lparr>flipflag := 1\<rparr>) = None"
    by (rule Suc.IH [OF spin_state_flipflag [OF Suc.prems]])
  then show ?case
    using spin_pass [OF Suc.prems, of e] by simp
qed

text \<open>
  Claim C2: every dequeue terminates, in every reachable state. The code does not: after two
  promotions \<open>ucounter\<close> is 2; \<open>fq_reset\<close> empties \<open>co_flows\<close> and leaves
  \<open>ucounter\<close> at 2; when a flow that is not a co-flow is then queued, each pass of the loop
  finds \<open>co_flows\<close> empty, takes \<open>new_flows\<close>, sees \<open>ucounter == 2\<close> with a list
  other than \<open>co_flows\<close>, sets \<open>flipflag\<close> and goes back to \<open>begin\<close> in the same
  state. \<open>c2_state\<close> is reached by two enqueues, a dequeue, a reset and an enqueue; no
  number of passes makes \<open>fq_dequeue\<close> return from it.
\<close>

theorem C2_dequeue_spins_after_reset:
  "map_option fst
     (sched_run 5 env0
        [ENQUEUE (mk_skb sock_A 101 0), ENQUEUE (mk_skb sock_B 102 0), DEQUEUE, RESET,
         ENQUEUE (mk_skb sock_C 103 0)] sched0) =
     Some [ENQUEUED NET_XMIT_SUCCESS, ENQUEUED NET_XMIT_SUCCESS, DEQUEUED None, RESET_DONE,
           ENQUEUED NET_XMIT_SUCCESS] \<and>
   sch_qlen c2_state = 1 \<and> ucounter c2_state = 2 \<and> co_flows c2_state = [] \<and>
   new_flows c2_state = [Flow 12288] \<and>
   fq_dequeue n env0 c2_state = None"
proof -
  have run: "map_option fst
     (sched_run 5 env0
        [ENQUEUE (mk_skb sock_A 101 0), ENQUEUE (mk_skb sock_B 102 0), DEQUEUE, RESET,
         ENQUEUE (mk_skb sock_C 103 0)] sched0) =
     Some [ENQUEUED NET_XMIT_SUCCESS, ENQUEUED NET_XMIT_SUCCESS, DEQUEUED None, RESET_DONE,
           ENQUEUED NET_XMIT_SUCCESS]"
    by code_simp
  have st: "sch_qlen c2_state = 1" "ucounter c2_state = 2" "co_flows c2_state = []"
    "new_flows c2_state = [Flow 12288]"
    by code_simp+
  have i: "fq_peek (internal c2_state) = None"
    by code_simp
  have sp: "spin_state
     (fq_check_throttled (c2_state\<lparr>ktime_cache := ktime_ns env0\<rparr>) (ktime_ns env0))"
    by code_simp
  have "fq_dequeue n env0 c2_state = None"
    using st(1) i spin_never_returns [OF sp, of n env0] by (simp add: fq_dequeue_def)
  with run st show ?thesis by simp
qed




section \<open>Change of the configuration\<close>

lemma fq_config_simple [simp]:
  "fq_config (put_flow q r f) = fq_config q"
  "fq_config (set_list q h xs) = fq_config q"
  "fq_config (pop_first q h) = fq_config q"
  "fq_config (fq_flow_add_tail q h r) = fq_config q"
  "fq_config (fq_flow_unset_throttled q r) = fq_config q"
  "fq_config (fq_flow_set_throttled q r) = fq_config q"
  "fq_config (fq_dequeue_skb q r skb) = fq_config q"
  "fq_config (qdisc_bstats_update q skb) = fq_config q"
  "fq_config (Promotecoflows q r) = fq_config q"
  "fq_config (pass_state (fq_dequeue_flow e h r q)) = fq_config q"
  by (simp_all add: fq_config_def)

lemma fq_config_check_loop [simp]: "fq_config (fq_check_throttled_loop now q) = fq_config q"
proof (induction now q rule: fq_check_throttled_loop.induct)
  case (1 now q)
  show ?case
  proof (cases "delayed q")
    case Nil
    then show ?thesis
      by (subst fq_check_throttled_loop.simps) simp
  next
    case (Cons r rest)
    show ?thesis
    proof (cases "time_next_packet (get_flow q r) > now")
      case True
      with Cons show ?thesis
        by (subst fq_check_throttled_loop.simps) (simp add: fq_config_def)
    next
      case False
      with Cons "1.IH" [OF Cons False] show ?thesis
        by (subst fq_check_throttled_loop.simps) simp
    qed
  qed
qed

lemma fq_config_check_throttled [simp]: "fq_config (fq_check_throttled q now) = fq_config q"
  by (simp add: fq_check_throttled_def Let_def) (simp add: fq_config_def)

lemma fq_config_pass [simp]: "fq_config (pass_state (fq_dequeue_pass e q)) = fq_config q"
proof -
  have u: "fq_config (q\<lparr>ucounter := v\<rparr>) = fq_config q" for v
    by (simp add: fq_config_def)
  have w: "fq_config (q\<lparr>watchdog := v\<rparr>) = fq_config q" for v
    by (simp add: fq_config_def)
  have f: "fq_config (q\<lparr>flipflag := v\<rparr>) = fq_config q" for v
    by (simp add: fq_config_def)
  have p: "fq_config ((Promotecoflows q r)\<lparr>ucounter := v\<rparr>) = fq_config q" for r v
    using fq_config_simple(9) [of q r] by (simp add: fq_config_def)
  show ?thesis
    by (simp add: fq_dequeue_pass_def Let_def u w f p split: option.splits)
       (simp add: pass_state_def u w f p)
qed

lemma fq_config_begin:
  "fq_dequeue_begin n e q = Some (res, q') \<Longrightarrow> fq_config q' = fq_config q"
proof (induction n arbitrary: q)
  case 0
  then show ?case by simp
next
  case (Suc n)
  show ?case
  proof (cases "fq_dequeue_pass e q")
    case (Restart q1)
    then have "fq_config q1 = fq_config q"
      using fq_config_pass [of e q] by (simp add: pass_state_def)
    with Suc Restart show ?thesis by simp
  next
    case (Return r q1)
    then have "fq_config q1 = fq_config q"
      using fq_config_pass [of e q] by (simp add: pass_state_def)
    with Suc.prems Return show ?thesis by simp
  qed
qed

lemma fq_config_dequeue:
  "fq_dequeue n e q = Some (res, q') \<Longrightarrow> fq_config q' = fq_config q"
proof -
  have k: "fq_config (q\<lparr>ktime_cache := v\<rparr>) = fq_config q" for v
    by (simp add: fq_config_def)
  assume "fq_dequeue n e q = Some (res, q')"
  then show ?thesis
    using fq_config_begin [of n e "fq_check_throttled (q\<lparr>ktime_cache := ktime_ns e\<rparr>) (ktime_ns e)" res q']
    by (auto simp: fq_dequeue_def k split: if_splits option.splits)
qed

lemma fq_config_trim: "fq_change_trim n e q = Some q' \<Longrightarrow> fq_config q' = fq_config q"
proof (induction n arbitrary: q)
  case 0
  then show ?case by simp
next
  case (Suc n)
  show ?case
  proof (cases "sch_qlen q > sch_limit q")
    case False
    with Suc.prems show ?thesis by simp
  next
    case True
    show ?thesis
    proof (cases "fq_dequeue n e q")
      case None
      with True Suc.prems show ?thesis by simp
    next
      case (Some a)
      obtain res q1 where a: "a = (res, q1)" by (cases a)
      have c: "fq_config q1 = fq_config q"
        using fq_config_dequeue [of n e q res q1] Some a by simp
      show ?thesis
      proof (cases res)
        case None
        with True Suc.prems Some a c show ?thesis by simp
      next
        case (Some skb)
        with True Suc.prems \<open>fq_dequeue n e q = Some a\<close> a
        have "fq_change_trim n e q1 = Some q'" by simp
        then show ?thesis using Suc.IH [of q1] c by simp
      qed
    qed
  qed
qed

lemma push_bit_20: "push_bit 20 (1 :: u32) = 1048576"
  by simp

lemma change_attrs_err:
  "attrs_out_of_range tb \<Longrightarrow> fst (fq_change_attrs e tb q) = - EINVAL"
  by (auto simp: fq_change_attrs_def attrs_out_of_range_def quantum_in_range_def
      buckets_log_in_range_def Let_def push_bit_20 EINVAL_def not_less not_le split: option.splits)

lemma change_attrs_applied:
  "attrs_applied e tb q (snd (snd (fq_change_attrs e tb q)))"
  by (simp add: fq_change_attrs_def attrs_applied_def quantum_in_range_def Let_def push_bit_20
      cong: option.case_cong)

lemma change_attrs_table:
  "fq_trees_log (snd (snd (fq_change_attrs e tb q))) = fq_trees_log q"
  "fq_root_allocated (snd (snd (fq_change_attrs e tb q))) = fq_root_allocated q"
  "sch_qlen (snd (snd (fq_change_attrs e tb q))) = sch_qlen q"
  "sch_limit (snd (snd (fq_change_attrs e tb q))) =
     (case TCA_FQ_PLIMIT tb of Some v \<Rightarrow> v | None \<Rightarrow> sch_limit q)"
  by (simp_all add: fq_change_attrs_def Let_def)

lemma attrs_applied_config:
  "fq_config q2 = fq_config q1 \<Longrightarrow> attrs_applied e tb q q1 \<Longrightarrow> attrs_applied e tb q q2"
  by (simp add: attrs_applied_def fq_config_def)

lemma change_out_of_range:
  "attrs_out_of_range tb \<Longrightarrow>
   fq_change n e (OPT_ATTRS tb) q =
     map_option (Pair (- EINVAL)) (fq_change_trim n e (snd (snd (fq_change_attrs e tb q))))"
  using change_attrs_err [of tb e q]
  by (cases "fq_change_attrs e tb q")
     (auto simp: fq_change_def EINVAL_def split: option.splits prod.splits)




end
